theory Spec2Isabelle
  imports Main "HOL-Library.Sublist" "HOL-Library.Word"
begin

unbundle bit_operations_syntax

section \<open>The standard-library string operations the two proxies call\<close>

text \<open>
  A \<open>std::string\<close> is a \<open>string\<close> (a list of bytes). \<open>std::string::npos\<close> is
  \<open>None\<close>. \<open>find\<close> returns the lowest position at which the needle occurs.
\<close>

fun str_find :: "string \<Rightarrow> string \<Rightarrow> nat option" where
  "str_find [] needle = (if needle = [] then Some 0 else None)"
| "str_find (c # cs) needle =
     (if take (length needle) (c # cs) = needle then Some 0
      else map_option Suc (str_find cs needle))"

definition str_find_from :: "string \<Rightarrow> string \<Rightarrow> nat \<Rightarrow> nat option" where
  "str_find_from s needle pos =
     (if length s < pos then None
      else map_option (\<lambda>i. pos + i) (str_find (drop pos s) needle))"

text \<open>
  The exceptions of the standard library that the code can meet: \<open>substr\<close> throws
  \<open>std::out_of_range\<close> past the end, \<open>std::stoi\<close> throws \<open>std::invalid_argument\<close>
  when no digit can be read and \<open>std::out_of_range\<close> when the number does not fit an
  \<open>int\<close>. Both derive from \<open>std::exception\<close>.
\<close>

datatype exn = std_out_of_range | std_invalid_argument

definition substr :: "string \<Rightarrow> nat \<Rightarrow> exn + string" where
  "substr s pos = (if length s < pos then Inl std_out_of_range else Inr (drop pos s))"

definition CRLF :: string where
  "CRLF = [CHR 0x0D, CHR 0x0A]"

definition isspace :: "char \<Rightarrow> bool" where
  "isspace c = (c \<in> set [CHR '' '', CHR 0x09, CHR 0x0A, CHR 0x0B, CHR 0x0C, CHR 0x0D])"

definition isdigit :: "char \<Rightarrow> bool" where
  "isdigit c = (c \<in> set ''0123456789'')"

definition digit_val :: "char \<Rightarrow> nat" where
  "digit_val c = of_char c - 48"

definition INT_MAX :: int where
  "INT_MAX = 2147483647"

definition INT_MIN :: int where
  "INT_MIN = - 2147483648"

text \<open>
  \<open>std::stoi(s)\<close> in base 10, as \<open>strtol\<close> reads it: leading white space is skipped,
  one sign is accepted, then the longest run of digits is read and what follows is
  ignored.
\<close>

definition stoi :: "string \<Rightarrow> exn + int" where
  "stoi s =
     (let s1 = dropWhile isspace s;
          neg = (s1 \<noteq> [] \<and> hd s1 = CHR ''-'');
          s2 = (if s1 \<noteq> [] \<and> (hd s1 = CHR ''-'' \<or> hd s1 = CHR ''+'') then tl s1 else s1);
          ds = takeWhile isdigit s2;
          n = int (foldl (\<lambda>a c. 10 * a + digit_val c) 0 ds);
          v = (if neg then - n else n)
      in if ds = [] then Inl std_invalid_argument
         else if v < INT_MIN \<or> INT_MAX < v then Inl std_out_of_range
         else Inr v)"

text \<open>\<open>std::to_string\<close> on an integer: its decimal digits, with a minus sign below 0.\<close>

definition digit_char :: "nat \<Rightarrow> char" where
  "digit_char d = char_of (48 + d)"

function to_string_nat :: "nat \<Rightarrow> string" where
  "to_string_nat n =
     (if n < 10 then [digit_char n] else to_string_nat (n div 10) @ [digit_char (n mod 10)])"
  by pat_completeness auto
termination
  by (relation "measure id") auto

declare to_string_nat.simps [simp del]

definition to_string :: "int \<Rightarrow> string" where
  "to_string i = (if i < 0 then CHR ''-'' # to_string_nat (nat (- i)) else to_string_nat (nat i))"

section \<open>proxysocks.cpp: the HeaderBootstrap proxy\<close>

subsection \<open>Constants\<close>

definition IP :: string where
  "IP = ''0.0.0.0''"

definition PASS :: string where
  "PASS = ''''"

definition BUFLEN :: nat where
  "BUFLEN = 131072"

definition TIMEOUT :: int where
  "TIMEOUT = 60"

definition MSG :: string where
  "MSG = ''@TMYCOMNECTVPN''"

definition COR :: string where
  "COR = ''<font color='' @ [CHR 0x22] @ ''null'' @ [CHR 0x22] @ ''>''"

definition FTAG :: string where
  "FTAG = ''</font>''"

definition DEFAULT_HOST :: string where
  "DEFAULT_HOST = ''0.0.0.0:22''"

definition RESPONSE :: string where
  "RESPONSE = ''HTTP/1.1 200 '' @ COR @ MSG @ FTAG @ CRLF @ CRLF"

subsection \<open>findHeader\<close>

definition findHeader :: "string \<Rightarrow> string \<Rightarrow> exn + string" where
  "findHeader head header =
     (case str_find head (header @ '': '') of
        None \<Rightarrow> Inr ''''
      | Some aux \<Rightarrow>
          (case str_find_from head '':'' aux of
             None \<Rightarrow> Inr ''''
           | Some aux1 \<Rightarrow>
               (case substr head (aux1 + 2) of
                  Inl e \<Rightarrow> Inl e
                | Inr sub \<Rightarrow>
                    (case str_find sub CRLF of
                       None \<Rightarrow> Inr ''''
                     | Some aux2 \<Rightarrow> Inr (take aux2 sub)))))"

subsection \<open>The authorization decision and the rejection reply of \<open>handle\<close>\<close>

text \<open>
  Lines 204 to 206 and line 209 of \<open>ConnectionHandler::handle\<close>. The source compares
  with the compile-time constants \<open>IP\<close> and \<open>PASS\<close>; the model takes the bind address
  and the passphrase as arguments \<open>ip\<close> and \<open>pass\<close>, so that a statement can speak of
  any configuration, and \<open>handle\<close> below is the source at \<open>ip = IP\<close>, \<open>pass = PASS\<close>.
\<close>

definition allowed :: "string \<Rightarrow> string \<Rightarrow> string \<Rightarrow> string \<Rightarrow> bool" where
  "allowed ip pass passwd hostPort =
     (if pass \<noteq> [] \<and> passwd = pass then True
      else if str_find hostPort ip = Some 0 then True
      else False)"

definition errResp :: "string \<Rightarrow> string \<Rightarrow> string" where
  "errResp pass passwd =
     (if pass \<noteq> [] \<and> passwd \<noteq> pass then ''HTTP/1.1 400 WrongPass!'' @ CRLF @ CRLF
      else ''HTTP/1.1 403 Forbidden!'' @ CRLF @ CRLF)"

subsection \<open>System calls, their results and the trace a handler leaves\<close>

text \<open>
  The result of a system call is \<open>Inl e\<close> when it returned \<open>-1\<close> with \<open>errno = e\<close>,
  and \<open>Inr v\<close> when it succeeded with \<open>v\<close> (the bytes moved for \<open>recv\<close> and \<open>splice\<close>,
  the count accepted for \<open>send\<close>). \<open>errno\<close> keeps its value across a call that
  succeeds.
\<close>

datatype errno = EINTR | EAGAIN | EWOULDBLOCK | EINPROGRESS | EOTHER nat

type_synonym 'a sysres = "errno + 'a"

definition set_errno :: "'a sysres \<Rightarrow> errno \<Rightarrow> errno" where
  "set_errno r e = (case r of Inl e1 \<Rightarrow> e1 | Inr v \<Rightarrow> e)"

definition ret_data :: "string sysres \<Rightarrow> string" where
  "ret_data r = (case r of Inl e \<Rightarrow> [] | Inr d \<Rightarrow> d)"

definition ret_len :: "string sysres \<Rightarrow> int" where
  "ret_len r = (case r of Inl e \<Rightarrow> - 1 | Inr d \<Rightarrow> int (length d))"

definition ret_count :: "nat sysres \<Rightarrow> int" where
  "ret_count r = (case r of Inl e \<Rightarrow> - 1 | Inr n \<Rightarrow> int n)"

text \<open>A read of at most \<open>n\<close> bytes never hands over more than \<open>n\<close>.\<close>

definition upto_len :: "nat \<Rightarrow> string sysres \<Rightarrow> string sysres" where
  "upto_len n r = (case r of Inl e \<Rightarrow> Inl e | Inr d \<Rightarrow> Inr (take n d))"

text \<open>
  What a handler does, in order: each system call with its arguments (and its result
  where the code reads it), and each message handed to \<open>asyncLog\<close>, cut down to its
  fixed leading words (without the connection prefix \<open>logStr\<close>, the \<open>strerror\<close>
  text, the descriptor number or the direction of a \<open>splice\<close>). The \<open>setsockopt\<close>
  calls are left out: their results are never read and no branch depends on them.
\<close>

datatype effect =
    Fcntl_GETFL int
  | Fcntl_SETFL int
  | Recv int nat "string sysres"
  | Send int string "nat sysres"
  | Splice int int nat "string sysres"
  | Getaddrinfo string string
  | Socket int
  | Connect int "unit sysres"
  | Shutdown int
  | Close int
  | Epoll_create1 int
  | Epoll_ctl_add int int
  | Epoll_wait int
  | AsyncLog string

text \<open>One ready descriptor reported by \<open>epoll_wait\<close>, with what the kernel answers to
  the calls the relay makes for it.\<close>

record event =
  ev_fd :: int
  ev_errhup :: bool
  ev_splice :: "string sysres"
  ev_recv :: "string sysres"
  ev_send :: "nat sysres"

text \<open>
  Everything outside the handler: the results of the system calls \<open>handle\<close> makes, in
  the order of the source, the value of \<open>errno\<close> on entry to the relay loop, and the
  results of the successive \<open>epoll_wait\<close> calls (\<open>Inr []\<close> is a wait that timed out,
  \<open>nfds = 0\<close>).
\<close>

record env =
  e_getfl_client :: int
  e_setfl_client :: int
  e_recv_initial :: "string sysres"
  e_recv_split :: "string sysres"
  e_send_reply :: "nat sysres"
  e_getaddrinfo :: int
  e_socket :: int
  e_getfl_target :: int
  e_setfl_target :: int
  e_connect :: "unit sysres"
  e_epoll_create1 :: int
  e_epoll_ctl_client :: int
  e_epoll_ctl_target :: int
  e_errno :: errno
  e_waits :: "event list sysres list"

subsection \<open>ConnectionHandler\<close>

record ConnectionHandler =
  clientSock :: int
  targetSock :: int
  clientClosed :: bool
  targetClosed :: bool
  epollFd :: int

definition new_ConnectionHandler :: "int \<Rightarrow> ConnectionHandler" where
  "new_ConnectionHandler sock =
     \<lparr>clientSock = sock, targetSock = - 1, clientClosed = False, targetClosed = True,
      epollFd = - 1\<rparr>"

definition close :: "ConnectionHandler \<Rightarrow> ConnectionHandler \<times> effect list" where
  "close h =
     (let (h1, t1) =
            (if \<not> clientClosed h \<and> clientSock h \<noteq> - 1
             then (h\<lparr>clientClosed := True\<rparr>, [Shutdown (clientSock h), Close (clientSock h)])
             else (h, []));
          (h2, t2) =
            (if \<not> targetClosed h1 \<and> targetSock h1 \<noteq> - 1
             then (h1\<lparr>targetClosed := True\<rparr>, [Shutdown (targetSock h1), Close (targetSock h1)])
             else (h1, []))
      in (h2, t1 @ t2))"

text \<open>The destructor: \<open>close()\<close>, then the epoll descriptor if one was created.\<close>

definition destroy :: "ConnectionHandler \<Rightarrow> ConnectionHandler \<times> effect list" where
  "destroy h =
     (let (h1, t1) = close h
      in (h1, t1 @ (if epollFd h1 \<noteq> - 1 then [Close (epollFd h1)] else [])))"

definition setNonBlocking :: "int \<Rightarrow> int \<Rightarrow> int \<Rightarrow> bool \<times> effect list" where
  "setNonBlocking sock flags r =
     (if flags = - 1 then (False, [Fcntl_GETFL sock])
      else (r \<noteq> - 1, [Fcntl_GETFL sock, Fcntl_SETFL sock]))"

text \<open>
  \<open>connectTarget\<close>: the result is \<open>Inl e\<close> when \<open>std::stoi\<close> (or \<open>substr\<close>) throws,
  else \<open>Inr\<close> of the boolean returned.
\<close>

definition connectTarget ::
  "env \<Rightarrow> string \<Rightarrow> ConnectionHandler \<Rightarrow> (exn + bool) \<times> ConnectionHandler \<times> effect list" where
  "connectTarget env hostPort h =
     (let colonPos = str_find hostPort '':'';
          host = (case colonPos of Some p \<Rightarrow> take p hostPort | None \<Rightarrow> hostPort);
          port = (case colonPos of
                    Some p \<Rightarrow> (case substr hostPort (p + 1) of Inl e \<Rightarrow> Inl e | Inr s \<Rightarrow> stoi s)
                  | None \<Rightarrow> Inr 22)
      in case port of
           Inl e \<Rightarrow> (Inl e, h, [])
         | Inr port \<Rightarrow>
             (let t1 = [Getaddrinfo host (to_string port)] in
              if e_getaddrinfo env \<noteq> 0 then (Inr False, h, t1 @ [AsyncLog ''Erro getaddrinfo''])
              else
                (let h1 = h\<lparr>targetSock := e_socket env\<rparr>;
                     t2 = t1 @ [Socket (targetSock h1)]
                 in if targetSock h1 = - 1 then (Inr False, h1, t2 @ [AsyncLog ''Erro socket''])
                    else
                      (let (nb, t3) = setNonBlocking (targetSock h1) (e_getfl_target env) (e_setfl_target env)
                       in if \<not> nb
                          then (Inr False, h1,
                                t2 @ t3 @ [AsyncLog ''Erro non-blocking target'', Close (targetSock h1)])
                          else
                            (let t4 = t2 @ t3 @ [Connect (targetSock h1) (e_connect env)]
                             in case e_connect env of
                                  Inr u \<Rightarrow> (Inr True, h1\<lparr>targetClosed := False\<rparr>, t4)
                                | Inl e \<Rightarrow>
                                    if e \<noteq> EINPROGRESS
                                    then (Inr False, h1,
                                          t4 @ [AsyncLog ''Erro connect'', Close (targetSock h1)])
                                    else (Inr True, h1\<lparr>targetClosed := False\<rparr>, t4))))))"

subsection \<open>The relay loop of \<open>handle\<close>\<close>

text \<open>
  One direction of the relay, for one ready descriptor (lines 275 to 286, and 289 to
  300 with the two sockets exchanged): \<open>splice\<close>, and when it moved nothing and
  \<open>errno\<close> says it would block, \<open>recv\<close> into the buffer and one \<open>send\<close> of what was
  received. The result says whether the \<open>for\<close> loop is left (\<open>break\<close>), gives \<open>errno\<close>
  afterwards and the calls made.
\<close>

definition pump :: "int \<Rightarrow> int \<Rightarrow> event \<Rightarrow> errno \<Rightarrow> bool \<times> errno \<times> effect list" where
  "pump src dst ev err =
     (let sp = upto_len BUFLEN (ev_splice ev);
          spliced = ret_len sp;
          err1 = set_errno sp err;
          t1 = [Splice src dst BUFLEN sp]
      in if spliced \<le> 0 then
           (if err1 \<noteq> EAGAIN \<and> err1 \<noteq> EWOULDBLOCK
            then (True, err1, t1 @ [AsyncLog ''Erro splice''])
            else
              (let rc = upto_len BUFLEN (ev_recv ev);
                   len = ret_len rc;
                   err2 = set_errno rc err1;
                   t2 = t1 @ [Recv src BUFLEN rc]
               in if len \<le> 0 then (True, err2, t2)
                  else
                    (let sent = ret_count (ev_send ev);
                         err3 = set_errno (ev_send ev) err2;
                         t3 = t2 @ [Send dst (ret_data rc) (ev_send ev)]
                     in if sent \<le> 0 then (True, err3, t3) else (False, err3, t3))))
         else (False, err1, t1))"

text \<open>The \<open>for\<close> loop over the events of one wait (lines 266 to 302).\<close>

fun for_events :: "ConnectionHandler \<Rightarrow> errno \<Rightarrow> event list \<Rightarrow> errno \<times> effect list" where
  "for_events h err [] = (err, [])"
| "for_events h err (ev # evs) =
     (if ev_errhup ev then (err, [AsyncLog ''Erro epoll event''])
      else if ev_fd ev = clientSock h then
        (case pump (clientSock h) (targetSock h) ev err of
           (True, err1, t) \<Rightarrow> (err1, t)
         | (False, err1, t) \<Rightarrow> (case for_events h err1 evs of (err2, t2) \<Rightarrow> (err2, t @ t2)))
      else if ev_fd ev = targetSock h then
        (case pump (targetSock h) (clientSock h) ev err of
           (True, err1, t) \<Rightarrow> (err1, t)
         | (False, err1, t) \<Rightarrow> (case for_events h err1 evs of (err2, t2) \<Rightarrow> (err2, t @ t2)))
      else for_events h err evs)"

text \<open>
  The \<open>while (true)\<close> loop (lines 249 to 303), one iteration for each recorded result
  of \<open>epoll_wait\<close>. The boolean is \<open>True\<close> when the loop was left by a \<open>break\<close>, and
  \<open>False\<close> when every recorded wait has been consumed and the loop is still waiting.
\<close>

fun relay :: "ConnectionHandler \<Rightarrow> errno \<Rightarrow> int \<Rightarrow> event list sysres list \<Rightarrow> bool \<times> effect list" where
  "relay h err count [] = (False, [])"
| "relay h err count (Inl e # ws) =
     (if e = EINTR
      then (case relay h e count ws of (b, t) \<Rightarrow> (b, Epoll_wait (epollFd h) # t))
      else (True, [Epoll_wait (epollFd h), AsyncLog ''Erro epoll_wait'']))"
| "relay h err count (Inr [] # ws) =
     (if TIMEOUT \<le> count + 1
      then (True, [Epoll_wait (epollFd h), AsyncLog ''Timeout atingido''])
      else (case relay h err (count + 1) ws of (b, t) \<Rightarrow> (b, Epoll_wait (epollFd h) # t)))"
| "relay h err count (Inr (ev # evs) # ws) =
     (case for_events h err (ev # evs) of
        (err1, t1) \<Rightarrow>
          (case relay h err1 0 ws of (b, t) \<Rightarrow> (b, Epoll_wait (epollFd h) # t1 @ t)))"

subsection \<open>handle\<close>

text \<open>
  Lines 221 to 303: after a successful \<open>connectTarget\<close>, the success reply, the epoll
  registration and the relay loop. The first component of the result is \<open>True\<close> when
  \<open>handle\<close> has returned, \<open>False\<close> when it is still in the relay loop after the last
  recorded wait.
\<close>

definition tunnel ::
  "env \<Rightarrow> string \<Rightarrow> ConnectionHandler \<Rightarrow> bool \<times> ConnectionHandler \<times> effect list" where
  "tunnel env hostPort h =
     (let t1 = [Send (clientSock h) RESPONSE (e_send_reply env), AsyncLog (''CONNECT '' @ hostPort)];
          h1 = h\<lparr>epollFd := e_epoll_create1 env\<rparr>;
          t2 = t1 @ [Epoll_create1 (epollFd h1)]
      in if epollFd h1 = - 1 then (True, h1, t2 @ [AsyncLog ''Erro epoll_create''])
         else
           (let t3 = t2 @ [Epoll_ctl_add (epollFd h1) (clientSock h1)]
            in if e_epoll_ctl_client env = - 1 then (True, h1, t3 @ [AsyncLog ''Erro epoll_ctl client''])
               else
                 (let t4 = t3 @ [Epoll_ctl_add (epollFd h1) (targetSock h1)]
                  in if e_epoll_ctl_target env = - 1
                     then (True, h1, t4 @ [AsyncLog ''Erro epoll_ctl target''])
                     else (case relay h1 (e_errno env) 0 (e_waits env) of
                             (b, t5) \<Rightarrow> (b, h1, t4 @ t5)))))"

text \<open>
  \<open>ConnectionHandler::handle\<close>. An exception thrown inside the \<open>try\<close> block is caught
  by \<open>catch (const std::exception&)\<close>, which only logs.
\<close>

definition handle ::
  "string \<Rightarrow> string \<Rightarrow> env \<Rightarrow> ConnectionHandler \<Rightarrow> bool \<times> ConnectionHandler \<times> effect list" where
  "handle ip pass env h =
     (let (nb, t0) = setNonBlocking (clientSock h) (e_getfl_client env) (e_setfl_client env)
      in if \<not> nb then (True, h, t0 @ [AsyncLog ''Erro non-blocking client''])
         else
           (let r = upto_len (BUFLEN - 1) (e_recv_initial env);
                t1 = t0 @ [Recv (clientSock h) (BUFLEN - 1) r]
            in if ret_len r \<le> 0 then (True, h, t1 @ [AsyncLog ''Erro recv inicial''])
               else
                 (let clientBuffer = ret_data r
                  in case findHeader clientBuffer ''X-Real-Host'' of
                       Inl e \<Rightarrow> (True, h, t1 @ [AsyncLog ''Excecao''])
                     | Inr hp \<Rightarrow>
                  (let hostPort = (if hp = [] then DEFAULT_HOST else hp)
                   in case findHeader clientBuffer ''X-Split'' of
                        Inl e \<Rightarrow> (True, h, t1 @ [AsyncLog ''Excecao''])
                      | Inr split \<Rightarrow>
                  (let t2 = t1 @ (if split \<noteq> []
                                  then [Recv (clientSock h) BUFLEN (upto_len BUFLEN (e_recv_split env))]
                                  else [])
                   in case findHeader clientBuffer ''X-Pass'' of
                        Inl e \<Rightarrow> (True, h, t2 @ [AsyncLog ''Excecao''])
                      | Inr passwd \<Rightarrow>
                  if \<not> allowed ip pass passwd hostPort
                  then (True, h,
                        t2 @ [Send (clientSock h) (errResp pass passwd) (e_send_reply env),
                              AsyncLog ''Acesso negado''])
                  else
                    (case connectTarget env hostPort h of
                       (Inl e, h1, t3) \<Rightarrow> (True, h1, t2 @ t3 @ [AsyncLog ''Excecao''])
                     | (Inr False, h1, t3) \<Rightarrow>
                         (True, h1,
                          t2 @ t3 @ [Send (clientSock h1) (''HTTP/1.1 502 Bad Gateway!'' @ CRLF @ CRLF)
                                       (e_send_reply env)])
                     | (Inr True, h1, t3) \<Rightarrow>
                         (case tunnel env hostPort h1 of (b, h2, t4) \<Rightarrow> (b, h2, t2 @ t3 @ t4))))))))"

text \<open>
  What \<open>poolWorker\<close> does with one queued handler: \<open>handler->handle(); delete handler;\<close>.
  The destructor runs once \<open>handle\<close> has returned.
\<close>

definition run_task ::
  "string \<Rightarrow> string \<Rightarrow> env \<Rightarrow> ConnectionHandler \<Rightarrow> bool \<times> ConnectionHandler \<times> effect list" where
  "run_task ip pass env h =
     (case handle ip pass env h of
        (True, h1, t1) \<Rightarrow> (case destroy h1 of (h2, t2) \<Rightarrow> (True, h2, t1 @ t2))
      | (False, h1, t1) \<Rightarrow> (False, h1, t1))"

section \<open>socks5\_server.cpp: the SOCKS5 proxy\<close>

subsection \<open>Bytes, addresses and completions\<close>

type_synonym byte = "8 word"

text \<open>
  The \<open>error_code\<close> values the session tells apart; \<open>success\<close> is the one that tests
  false in \<open>if (ec)\<close>.
\<close>

datatype error_code =
  success | eof | operation_aborted | timed_out | invalid_argument | ec_other nat

text \<open>\<open>client_socket\<close> and \<open>remote_socket\<close>.\<close>

datatype sock = Client | Remote

text \<open>
  \<open>boost::asio::ip::address\<close>: an IPv4 or an IPv6 address, by its bytes. A
  default-constructed address is the IPv4 address \<open>0.0.0.0\<close>.
\<close>

datatype address = address_v4 "byte list" | address_v6 "byte list"

definition default_address :: address where
  "default_address = address_v4 [0, 0, 0, 0]"

text \<open>
  What a session asks of the I/O context, in order. An \<open>Async_write\<close> carries the
  bytes its buffer holds when the write is started.
\<close>

datatype action =
    Expires_after nat
  | Timer_async_wait
  | Timer_cancel
  | Async_read sock nat
  | Async_read_some sock
  | Async_write sock "byte list"
  | Async_resolve string string
  | Async_connect sock string string
  | Sock_shutdown sock
  | Sock_close sock

text \<open>
  The completions that arrive while data is forwarded: the timer, the write of the
  success reply, and the reads and writes of the two directions.
\<close>

datatype completion =
    Timer_fired error_code
  | Reply_written error_code
  | Client_read error_code "byte list"
  | Remote_written error_code
  | Remote_read error_code "byte list"
  | Client_written error_code

text \<open>
  Everything outside the session: how each asynchronous operation of the negotiation
  completes, in the order the source starts them, the local endpoint of the connected
  remote socket, the completions of the forwarding phase, and the text boost prints
  for an IPv6 address (a library function on which no branch depends).
\<close>

record s5env =
  s_head :: "error_code \<times> byte list"
  s_methods :: "error_code \<times> byte list"
  s_method_reply :: error_code
  s_request :: "error_code \<times> byte list"
  s_domain_len :: "error_code \<times> byte list"
  s_addr :: "error_code \<times> byte list"
  s_port :: "error_code \<times> byte list"
  s_resolve :: error_code
  s_connect :: error_code
  s_local_endpoint :: "address \<times> 16 word"
  s_completions :: "completion list"
  s_reply :: error_code
  s_v6_to_string :: "byte list \<Rightarrow> string"

subsection \<open>Session\<close>

text \<open>
  The members of the source without their trailing underscore: the two sockets by
  whether they are open, and the one buffer shared by every read and write of the
  session (an array of 8192 bytes, indexed from 0).
\<close>

record Session =
  client_socket :: bool
  remote_socket :: bool
  buffer :: "nat \<Rightarrow> byte"

definition new_Session :: "(nat \<Rightarrow> byte) \<Rightarrow> Session" where
  "new_Session buf = \<lparr>client_socket = True, remote_socket = False, buffer = buf\<rparr>"

text \<open>A completed read has put its bytes at the start of the buffer.\<close>

definition store :: "byte list \<Rightarrow> (nat \<Rightarrow> byte) \<Rightarrow> (nat \<Rightarrow> byte)" where
  "store bs buf = (\<lambda>i. if i < length bs then bs ! i else buf i)"

definition buffer_prefix :: "(nat \<Rightarrow> byte) \<Rightarrow> nat \<Rightarrow> byte list" where
  "buffer_prefix buf n = map buf [0..<n]"

definition after :: "action list \<Rightarrow> Session \<times> action list \<Rightarrow> Session \<times> action list" where
  "after t r = (fst r, t @ snd r)"

definition set_timeout :: "nat \<Rightarrow> action list" where
  "set_timeout seconds = [Expires_after seconds, Timer_async_wait]"

definition cancel_timeout :: "action list" where
  "cancel_timeout = [Timer_cancel]"

definition handle_error :: "error_code \<Rightarrow> Session \<Rightarrow> Session \<times> action list" where
  "handle_error ec s =
     (s\<lparr>client_socket := False, remote_socket := False\<rparr>,
      cancel_timeout @ [Sock_shutdown Client, Sock_shutdown Remote, Sock_close Client, Sock_close Remote])"

definition htons_bytes :: "16 word \<Rightarrow> byte list" where
  "htons_bytes port = [ucast (drop_bit 8 port), ucast port]"

definition ntohs_bytes :: "byte \<Rightarrow> byte \<Rightarrow> 16 word" where
  "ntohs_bytes b0 b1 = push_bit 8 (ucast b0) OR ucast b1"

definition ntohl_bytes :: "byte \<Rightarrow> byte \<Rightarrow> byte \<Rightarrow> byte \<Rightarrow> 32 word" where
  "ntohl_bytes b0 b1 b2 b3 =
     push_bit 24 (ucast b0) OR push_bit 16 (ucast b1) OR push_bit 8 (ucast b2) OR ucast b3"

text \<open>\<open>make_address_v4(ip).to_string()\<close>: the dotted decimal form.\<close>

definition address_v4_to_string :: "32 word \<Rightarrow> string" where
  "address_v4_to_string ip =
     to_string_nat (unat (drop_bit 24 ip)) @ ''.'' @
     to_string_nat (unat (take_bit 8 (drop_bit 16 ip))) @ ''.'' @
     to_string_nat (unat (take_bit 8 (drop_bit 8 ip))) @ ''.'' @
     to_string_nat (unat (take_bit 8 ip))"

definition reply_bytes :: "byte \<Rightarrow> address \<Rightarrow> 16 word \<Rightarrow> byte list" where
  "reply_bytes rep addr port =
     [0x05, rep, 0x00] @
     (case addr of address_v4 bs \<Rightarrow> 0x01 # bs | address_v6 bs \<Rightarrow> 0x04 # bs) @
     htons_bytes port"

text \<open>The completion handler of the write in \<open>send_reply\<close> (line 244).\<close>

definition reply_written :: "byte \<Rightarrow> error_code \<Rightarrow> Session \<Rightarrow> Session \<times> action list" where
  "reply_written rep ec s = (if ec \<noteq> success \<or> rep \<noteq> 0x00 then handle_error ec s else (s, []))"

text \<open>\<open>send_reply\<close> with a failure code: the write, then its completion handler.\<close>

definition send_reply :: "s5env \<Rightarrow> byte \<Rightarrow> address \<Rightarrow> 16 word \<Rightarrow> Session \<Rightarrow> Session \<times> action list" where
  "send_reply env rep addr port s =
     after [Async_write Client (reply_bytes rep addr port)] (reply_written rep (s_reply env) s)"

subsection \<open>Forwarding\<close>

definition forward_data :: "action list" where
  "forward_data = set_timeout 300 @ [Async_read_some Client, Async_read_some Remote]"

text \<open>
  One completion of the forwarding phase: the timer's handler of \<open>set_timeout\<close>, the
  reply's handler, and the handlers of \<open>read_from_client\<close> and \<open>read_from_remote\<close>.
\<close>

fun on_completion :: "Session \<Rightarrow> completion \<Rightarrow> Session \<times> action list" where
  "on_completion s (Timer_fired ec) = (if ec = success then handle_error timed_out s else (s, []))"
| "on_completion s (Reply_written ec) = reply_written 0x00 ec s"
| "on_completion s (Client_read ec bs) =
     (if ec \<noteq> success then handle_error ec s
      else (let s1 = s\<lparr>buffer := store bs (buffer s)\<rparr>
            in (s1, [Async_write Remote (buffer_prefix (buffer s1) (length bs))])))"
| "on_completion s (Remote_written ec) =
     (if ec \<noteq> success then handle_error ec s else (s, [Async_read_some Client]))"
| "on_completion s (Remote_read ec bs) =
     (if ec \<noteq> success then handle_error ec s
      else (let s1 = s\<lparr>buffer := store bs (buffer s)\<rparr>
            in (s1, [Async_write Client (buffer_prefix (buffer s1) (length bs))])))"
| "on_completion s (Client_written ec) =
     (if ec \<noteq> success then handle_error ec s else (s, [Async_read_some Remote]))"

fun forwarding :: "Session \<Rightarrow> completion list \<Rightarrow> Session \<times> action list" where
  "forwarding s [] = (s, [])"
| "forwarding s (c # cs) =
     (case on_completion s c of (s1, t1) \<Rightarrow> after t1 (forwarding s1 cs))"

subsection \<open>Negotiation\<close>

text \<open>
  \<open>connect_remote\<close>: the destination read from the client is not used; the resolver
  is given the fixed address and port of lines 205 and 206.
\<close>

definition connect_remote :: "s5env \<Rightarrow> string \<Rightarrow> 16 word \<Rightarrow> Session \<Rightarrow> Session \<times> action list" where
  "connect_remote env dest_addr dest_port s =
     (let fixed_target_port = (22 :: 16 word);
          fixed_target_addr = ''127.0.0.1'';
          service = to_string (uint fixed_target_port);
          t1 = [Async_resolve fixed_target_addr service]
      in if s_resolve env \<noteq> success then after t1 (send_reply env 0x01 default_address 0 s)
         else
           (let t2 = t1 @ [Async_connect Remote fixed_target_addr service]
            in if s_connect env \<noteq> success then after t2 (send_reply env 0x01 default_address 0 s)
               else
                 (let s1 = s\<lparr>remote_socket := True\<rparr>;
                      t3 = t2 @ cancel_timeout @
                           [Async_write Client
                              (reply_bytes 0x00 (fst (s_local_endpoint env)) (snd (s_local_endpoint env)))] @
                           forward_data
                  in after t3 (forwarding s1 (s_completions env)))))"

definition read_port :: "s5env \<Rightarrow> string \<Rightarrow> Session \<Rightarrow> Session \<times> action list" where
  "read_port env dest_addr s =
     after [Async_read Client 2]
       (case s_port env of
          (ec, bs) \<Rightarrow>
            if ec \<noteq> success then handle_error ec s
            else (let s1 = s\<lparr>buffer := store bs (buffer s)\<rparr>;
                      dest_port = ntohs_bytes (buffer s1 0) (buffer s1 1)
                  in connect_remote env dest_addr dest_port s1))"

text \<open>
  \<open>read_request\<close>. Its inner handlers capture the locals \<open>dest_addr\<close> and
  \<open>dest_port\<close> of the outer handler by reference and assign to them after the outer
  handler has returned; the model gives these assignments their plain meaning, a value
  handed on to \<open>read_port\<close>. A failure reply is sent with the default address and
  port 0.
\<close>

definition read_request :: "s5env \<Rightarrow> Session \<Rightarrow> Session \<times> action list" where
  "read_request env s =
     after [Async_read Client 4]
       (case s_request env of
          (ec, bs) \<Rightarrow>
            if ec \<noteq> success then handle_error ec s
            else
              (let s1 = s\<lparr>buffer := store bs (buffer s)\<rparr>
               in if buffer s1 0 \<noteq> 0x05 \<or> buffer s1 1 \<noteq> 0x01
                  then send_reply env 0x07 default_address 0 s1
                  else
                    (let atype = buffer s1 3
                     in if atype = 0x01 then
                          after [Async_read Client 4]
                            (case s_addr env of
                               (ec, bs) \<Rightarrow>
                                 if ec \<noteq> success then handle_error ec s1
                                 else (let s2 = s1\<lparr>buffer := store bs (buffer s1)\<rparr>;
                                           ip = ntohl_bytes (buffer s2 0) (buffer s2 1)
                                                  (buffer s2 2) (buffer s2 3)
                                       in read_port env (address_v4_to_string ip) s2))
                        else if atype = 0x03 then
                          after [Async_read Client 1]
                            (case s_domain_len env of
                               (ec, bs) \<Rightarrow>
                                 if ec \<noteq> success then handle_error ec s1
                                 else (let s2 = s1\<lparr>buffer := store bs (buffer s1)\<rparr>;
                                           len = unat (buffer s2 0)
                                       in after [Async_read Client len]
                                            (case s_addr env of
                                               (ec, bs) \<Rightarrow>
                                                 if ec \<noteq> success then handle_error ec s2
                                                 else (let s3 = s2\<lparr>buffer := store bs (buffer s2)\<rparr>;
                                                           dest_addr = map (\<lambda>b. char_of (unat b))
                                                                         (buffer_prefix (buffer s3) len)
                                                       in read_port env dest_addr s3))))
                        else if atype = 0x04 then
                          after [Async_read Client 16]
                            (case s_addr env of
                               (ec, bs) \<Rightarrow>
                                 if ec \<noteq> success then handle_error ec s1
                                 else (let s2 = s1\<lparr>buffer := store bs (buffer s1)\<rparr>
                                       in read_port env
                                            (s_v6_to_string env (buffer_prefix (buffer s2) 16)) s2))
                        else send_reply env 0x08 default_address 0 s1)))"

text \<open>The loop of lines 120 to 122 over the method bytes, with its \<open>uint8_t\<close> counter.\<close>

function scan_methods :: "(nat \<Rightarrow> byte) \<Rightarrow> byte \<Rightarrow> byte \<Rightarrow> bool" where
  "scan_methods buf nmethods i =
     (if i < nmethods
      then (if buf (unat i) = 0x00 then True else scan_methods buf nmethods (i + 1))
      else False)"
  by pat_completeness auto
termination
proof (relation "measure (\<lambda>(buf, nmethods, i). unat nmethods - unat i)")
  show "wf (measure (\<lambda>(buf, nmethods, i). unat nmethods - unat i))"
    by simp
next
  fix buf :: "nat \<Rightarrow> byte" and nmethods i :: byte
  assume "i < nmethods"
  then have "unat nmethods - unat (i + 1) < unat nmethods - unat i"
    by unat_arith
  then show "((buf, nmethods, i + 1), (buf, nmethods, i))
      \<in> measure (\<lambda>(buf, nmethods, i). unat nmethods - unat i)"
    by simp
qed

declare scan_methods.simps [simp del]

definition read_handshake :: "s5env \<Rightarrow> Session \<Rightarrow> Session \<times> action list" where
  "read_handshake env s =
     after [Async_read Client 2]
       (case s_head env of
          (ec, bs) \<Rightarrow>
            if ec \<noteq> success then handle_error ec s
            else
              (let s1 = s\<lparr>buffer := store bs (buffer s)\<rparr>
               in if buffer s1 0 \<noteq> 0x05 then handle_error invalid_argument s1
                  else
                    (let nmethods = buffer s1 1
                     in after [Async_read Client (unat nmethods)]
                          (case s_methods env of
                             (ec, bs) \<Rightarrow>
                               if ec \<noteq> success then handle_error ec s1
                               else
                                 (let s2 = s1\<lparr>buffer := store bs (buffer s1)\<rparr>;
                                      no_auth = scan_methods (buffer s2) nmethods 0
                                  in if \<not> no_auth
                                     then after [Async_write Client [0x05, 0xFF]]
                                            (handle_error (s_method_reply env) s2)
                                     else
                                       after [Async_write Client [0x05, 0x00]]
                                         (if s_method_reply env \<noteq> success
                                          then handle_error (s_method_reply env) s2
                                          else after (cancel_timeout @ set_timeout 30)
                                                 (read_request env s2)))))))"

definition start :: "s5env \<Rightarrow> Session \<Rightarrow> Session \<times> action list" where
  "start env s = after (set_timeout 30) (read_handshake env s)"

subsection \<open>Observations on a trace\<close>

text \<open>
  \<open>close()\<close> invoked \<open>n\<close> times in a row on the same handler (an explicit call, the
  destructor, or both).
\<close>

fun close_times :: "nat \<Rightarrow> ConnectionHandler \<Rightarrow> ConnectionHandler \<times> effect list" where
  "close_times 0 h = (h, [])"
| "close_times (Suc n) h =
     (case close h of (h1, t1) \<Rightarrow> (case close_times n h1 of (h2, t2) \<Rightarrow> (h2, t1 @ t2)))"

text \<open>
  The bytes a trace took out of descriptor \<open>fd\<close> (by \<open>recv\<close> or as the source of a
  \<open>splice\<close>), and the bytes it put into \<open>fd\<close> (the part of its buffer a \<open>send\<close>
  accepted, or as the destination of a \<open>splice\<close>), in order.
\<close>

fun taken_from :: "int \<Rightarrow> effect list \<Rightarrow> string" where
  "taken_from fd [] = []"
| "taken_from fd (Recv fd1 n r # t) = (if fd1 = fd then ret_data r else []) @ taken_from fd t"
| "taken_from fd (Splice src dst n r # t) = (if src = fd then ret_data r else []) @ taken_from fd t"
| "taken_from fd (x # t) = taken_from fd t"

fun given_to :: "int \<Rightarrow> effect list \<Rightarrow> string" where
  "given_to fd [] = []"
| "given_to fd (Send fd1 d r # t) =
     (if fd1 = fd then (case r of Inl e \<Rightarrow> [] | Inr n \<Rightarrow> take n d) else []) @ given_to fd t"
| "given_to fd (Splice src dst n r # t) = (if dst = fd then ret_data r else []) @ given_to fd t"
| "given_to fd (x # t) = given_to fd t"

subsection \<open>Sample inputs\<close>

text \<open>
  An environment for the concrete checks below: the first \<open>recv\<close> hands over \<open>req\<close>,
  every other call succeeds (\<open>connect\<close> with \<open>EINPROGRESS\<close>), and the relay sees the
  waits \<open>ws\<close>.
\<close>

definition sample_env :: "string \<Rightarrow> event list sysres list \<Rightarrow> env" where
  "sample_env req ws =
     \<lparr>e_getfl_client = 2, e_setfl_client = 0, e_recv_initial = Inr req,
      e_recv_split = Inl EAGAIN, e_send_reply = Inr 27, e_getaddrinfo = 0, e_socket = 7,
      e_getfl_target = 2, e_setfl_target = 0, e_connect = Inl EINPROGRESS,
      e_epoll_create1 = 8, e_epoll_ctl_client = 0, e_epoll_ctl_target = 0,
      e_errno = EINPROGRESS, e_waits = ws\<rparr>"


text \<open>
  A SOCKS5 environment for the concrete checks below: a version 5 greeting offering
  \<open>methods\<close>, an IPv4 CONNECT request for \<open>addr\<close> and \<open>port\<close>, every operation
  succeeding, and the completions \<open>cs\<close> while forwarding.
\<close>

definition sample_s5env :: "byte list \<Rightarrow> byte list \<Rightarrow> byte list \<Rightarrow> completion list \<Rightarrow> s5env" where
  "sample_s5env methods addr port cs =
     \<lparr>s_head = (success, [0x05, of_nat (length methods)]), s_methods = (success, methods),
      s_method_reply = success, s_request = (success, [0x05, 0x01, 0x00, 0x01]),
      s_domain_len = (success, [0x00]), s_addr = (success, addr), s_port = (success, port),
      s_resolve = success, s_connect = success,
      s_local_endpoint = (address_v4 [127, 0, 0, 1], 40000), s_completions = cs,
      s_reply = success, s_v6_to_string = (\<lambda>bs. [])\<rparr>"


section \<open>Facts about the string operations\<close>

lemma take_is_prefix: "take (length needle) hay = needle \<longleftrightarrow> prefix needle hay"
proof
  assume "take (length needle) hay = needle"
  then have "hay = needle @ drop (length needle) hay"
    by (metis append_take_drop_id)
  then show "prefix needle hay" by (metis prefixI)
next
  assume "prefix needle hay"
  then obtain zs where "hay = needle @ zs" by (auto simp: prefix_def)
  then show "take (length needle) hay = needle" by simp
qed

lemma str_find_zero: "str_find hay needle = Some 0 \<longleftrightarrow> prefix needle hay"
proof (cases hay)
  case Nil
  then show ?thesis by auto
next
  case (Cons c cs)
  have "take (length needle) (c # cs) = needle \<longleftrightarrow> prefix needle (c # cs)"
    by (rule take_is_prefix)
  then show ?thesis using Cons by (auto simp del: take_Suc_Cons Cons_prefix_Cons)
qed

lemma str_find_occurs:
  "str_find s needle = Some i \<Longrightarrow> prefix needle (drop i s)"
proof (induction s arbitrary: i)
  case Nil
  then show ?case by (auto split: if_splits)
next
  case (Cons c cs)
  show ?case
  proof (cases "take (length needle) (c # cs) = needle")
    case True
    with Cons.prems have "i = 0" by simp
    with True show ?thesis using take_is_prefix [of needle "c # cs"] by simp
  next
    case False
    with Cons.prems obtain j where j: "str_find cs needle = Some j" "i = Suc j"
      by auto
    from Cons.IH [OF j(1)] j(2) show ?thesis by simp
  qed
qed

lemma str_find_least:
  "str_find s needle = Some i \<Longrightarrow> j < i \<Longrightarrow> \<not> prefix needle (drop j s)"
proof (induction s arbitrary: i j)
  case Nil
  then show ?case by (auto split: if_splits)
next
  case (Cons c cs)
  show ?case
  proof (cases "take (length needle) (c # cs) = needle")
    case True
    with Cons.prems show ?thesis by simp
  next
    case False
    with Cons.prems obtain k where k: "str_find cs needle = Some k" "i = Suc k"
      by auto
    show ?thesis
    proof (cases j)
      case 0
      with False show ?thesis using take_is_prefix [of needle "c # cs"] by simp
    next
      case (Suc j')
      with Cons.prems(2) k(2) have "j' < k" by simp
      from Cons.IH [OF k(1) this] Suc show ?thesis by simp
    qed
  qed
qed

lemma str_find_bound:
  assumes "str_find s needle = Some i"
  shows "i + length needle \<le> length s"
proof -
  from assms have "prefix needle (drop i s)" by (rule str_find_occurs)
  then have "length needle \<le> length (drop i s)" by (rule prefix_length_le)
  moreover have "i \<le> length s"
    using assms by (induction s arbitrary: i) (auto split: if_splits)
  ultimately show ?thesis by simp
qed

text \<open>\<open>findHeader\<close> never throws: the position it hands to \<open>substr\<close> is inside the text.\<close>

lemma findHeader_returns: "\<exists>v. findHeader head header = Inr v"
proof (cases "str_find head (header @ '': '')")
  case None
  then show ?thesis by (simp add: findHeader_def)
next
  case (Some aux)
  note S1 = this
  show ?thesis
  proof (cases "str_find_from head '':'' aux")
    case None
    with S1 show ?thesis by (simp add: findHeader_def)
  next
    case (Some aux1)
    from str_find_bound [OF S1] have B: "aux + length header + 2 \<le> length head" by simp
    from Some obtain k where k: "str_find (drop aux head) '':'' = Some k" "aux1 = aux + k"
      by (auto simp: str_find_from_def split: if_splits)
    have "prefix (header @ '': '') (drop aux head)" by (rule str_find_occurs [OF S1])
    then obtain zs where zs: "drop aux head = header @ '': '' @ zs"
      by (auto simp: prefix_def)
    have "prefix '':'' (drop (length header) (drop aux head))"
      by (simp add: zs)
    then have "\<not> length header < k"
      using str_find_least [OF k(1), of "length header"] by blast
    then have "aux1 + 2 \<le> length head" using B k(2) by simp
    then obtain sub where "substr head (aux1 + 2) = Inr sub"
      by (simp add: substr_def)
    with S1 Some show ?thesis
      by (simp add: findHeader_def split: option.splits)
  qed
qed


section \<open>Facts about the HeaderBootstrap handler\<close>

lemma pump_logs:
  "AsyncLog m \<in> set (snd (snd (pump src dst ev err))) \<Longrightarrow> m = ''Erro splice''"
  by (auto simp: pump_def Let_def split: if_splits)

lemma for_events_logs:
  "AsyncLog m \<in> set (snd (for_events h err evs)) \<Longrightarrow>
     m = ''Erro splice'' \<or> m = ''Erro epoll event''"
proof (induction evs arbitrary: err)
  case Nil
  then show ?case by simp
next
  case (Cons ev evs)
  show ?case
  proof (cases "ev_errhup ev")
    case True
    with Cons.prems show ?thesis by simp
  next
    case False
    note nohup = this
    consider (c) "ev_fd ev = clientSock h"
      | (t) "ev_fd ev \<noteq> clientSock h" "ev_fd ev = targetSock h"
      | (n) "ev_fd ev \<noteq> clientSock h" "ev_fd ev \<noteq> targetSock h"
      by blast
    then show ?thesis
    proof cases
      case c
      obtain b e1 t where p: "pump (clientSock h) (targetSock h) ev err = (b, e1, t)"
        by (cases "pump (clientSock h) (targetSock h) ev err") auto
      obtain e2 t2 where f: "for_events h e1 evs = (e2, t2)"
        by (cases "for_events h e1 evs") auto
      from Cons.prems nohup c p f have "AsyncLog m \<in> set t \<or> AsyncLog m \<in> set t2"
        by (cases b) auto
      then show ?thesis
      proof
        assume "AsyncLog m \<in> set t"
        with p have "AsyncLog m \<in> set (snd (snd (pump (clientSock h) (targetSock h) ev err)))"
          by simp
        then show ?thesis by (auto dest: pump_logs)
      next
        assume "AsyncLog m \<in> set t2"
        with f have "AsyncLog m \<in> set (snd (for_events h e1 evs))" by simp
        then show ?thesis by (rule Cons.IH)
      qed
    next
      case t
      obtain b e1 tr where p: "pump (targetSock h) (clientSock h) ev err = (b, e1, tr)"
        by (cases "pump (targetSock h) (clientSock h) ev err") auto
      obtain e2 t2 where f: "for_events h e1 evs = (e2, t2)"
        by (cases "for_events h e1 evs") auto
      from Cons.prems nohup t p f have "AsyncLog m \<in> set tr \<or> AsyncLog m \<in> set t2"
        by (cases b) auto
      then show ?thesis
      proof
        assume "AsyncLog m \<in> set tr"
        with p have "AsyncLog m \<in> set (snd (snd (pump (targetSock h) (clientSock h) ev err)))"
          by simp
        then show ?thesis by (auto dest: pump_logs)
      next
        assume "AsyncLog m \<in> set t2"
        with f have "AsyncLog m \<in> set (snd (for_events h e1 evs))" by simp
        then show ?thesis by (rule Cons.IH)
      qed
    next
      case n
      with Cons.prems nohup have "AsyncLog m \<in> set (snd (for_events h err evs))" by simp
      then show ?thesis by (rule Cons.IH)
    qed
  qed
qed

lemma relay_logs:
  "AsyncLog m \<in> set (snd (relay h err count ws)) \<Longrightarrow>
     m = ''Erro splice'' \<or> m = ''Erro epoll event'' \<or> m = ''Erro epoll_wait'' \<or>
     m = ''Timeout atingido''"
proof (induction h err count ws rule: relay.induct)
  case (1 h err count)
  then show ?case by simp
next
  case (2 h err count e ws)
  then show ?case by (auto split: if_splits prod.splits)
next
  case (3 h err count ws)
  then show ?case by (auto split: if_splits prod.splits)
next
  case (4 h err count ev evs ws)
  obtain e1 t1 where f: "for_events h err (ev # evs) = (e1, t1)"
    by (cases "for_events h err (ev # evs)") auto
  obtain b t where r: "relay h e1 0 ws = (b, t)"
    by (cases "relay h e1 0 ws") auto
  from "4.prems" f r have "AsyncLog m \<in> set t1 \<or> AsyncLog m \<in> set t"
    by (auto simp del: for_events.simps)
  then show ?case
  proof
    assume "AsyncLog m \<in> set t1"
    with f have "AsyncLog m \<in> set (snd (for_events h err (ev # evs)))" by simp
    from for_events_logs [OF this] show ?thesis by blast
  next
    assume "AsyncLog m \<in> set t"
    with r have "AsyncLog m \<in> set (snd (relay h e1 0 ws))" by simp
    from "4.IH" [OF f [symmetric] this] show ?thesis .
  qed
qed

section \<open>Teardown of a ConnectionHandler\<close>

lemma close_trace:
  "snd (close h) =
     (if \<not> clientClosed h \<and> clientSock h \<noteq> - 1
      then [Shutdown (clientSock h), Close (clientSock h)] else []) @
     (if \<not> targetClosed h \<and> targetSock h \<noteq> - 1
      then [Shutdown (targetSock h), Close (targetSock h)] else [])"
  by (simp add: close_def)

lemma close_again: "close (fst (close h)) = (fst (close h), [])"
  by (simp add: close_def)

lemma close_times_again: "close_times n (fst (close h)) = (fst (close h), [])"
  by (induction n) (simp_all add: close_again)

text \<open>
  C8. A second (or any further) invocation of \<open>ConnectionHandler::close\<close> makes no
  system call and leaves the handler as it is; whatever the number of invocations, the
  calls made are those of the first one: \<open>shutdown\<close> and \<open>close\<close> once for the client
  socket if it was open, then once for the target socket if it was open.
\<close>

theorem close_idempotent:
  "close (fst (close h)) = (fst (close h), []) \<and>
   close_times (Suc n) h = close h \<and>
   snd (close h) =
     (if \<not> clientClosed h \<and> clientSock h \<noteq> - 1
      then [Shutdown (clientSock h), Close (clientSock h)] else []) @
     (if \<not> targetClosed h \<and> targetSock h \<noteq> - 1
      then [Shutdown (targetSock h), Close (targetSock h)] else [])"
proof -
  have "close_times (Suc n) h = close h"
    using close_times_again [of n h] by (cases "close h") simp
  then show ?thesis
    using close_again [of h] close_trace [of h] by blast
qed

theorem close_idempotent_witness:
  "close_times (Suc 2)
     \<lparr>clientSock = 5, targetSock = 7, clientClosed = False, targetClosed = False, epollFd = 8\<rparr> =
   (\<lparr>clientSock = 5, targetSock = 7, clientClosed = True, targetClosed = True, epollFd = 8\<rparr>,
    [Shutdown 5, Close 5, Shutdown 7, Close 7])"
  using close_idempotent
    [of "\<lparr>clientSock = 5, targetSock = 7, clientClosed = False, targetClosed = False, epollFd = 8\<rparr>" 2]
  by (simp add: close_def)

section \<open>The negotiation of the HeaderBootstrap handler\<close>

text \<open>
  \<open>handle\<close> once the client socket is non-blocking and the first \<open>recv\<close> has handed
  over a non-empty \<open>clientBuffer\<close>: the three header look-ups, then the decision.
\<close>

lemma handle_received:
  assumes "e_getfl_client env \<noteq> - 1" and "e_setfl_client env \<noteq> - 1"
    and "upto_len (BUFLEN - 1) (e_recv_initial env) = Inr clientBuffer"
    and "clientBuffer \<noteq> []"
    and "findHeader clientBuffer ''X-Real-Host'' = Inr hp"
    and "findHeader clientBuffer ''X-Split'' = Inr split"
    and "findHeader clientBuffer ''X-Pass'' = Inr passwd"
    and "hostPort = (if hp = [] then DEFAULT_HOST else hp)"
    and "t2 = [Fcntl_GETFL (clientSock h), Fcntl_SETFL (clientSock h),
               Recv (clientSock h) (BUFLEN - 1) (Inr clientBuffer)] @
              (if split \<noteq> []
               then [Recv (clientSock h) BUFLEN (upto_len BUFLEN (e_recv_split env))] else [])"
  shows "handle ip pass env h =
     (if \<not> allowed ip pass passwd hostPort
      then (True, h,
            t2 @ [Send (clientSock h) (errResp pass passwd) (e_send_reply env),
                  AsyncLog ''Acesso negado''])
      else
        (case connectTarget env hostPort h of
           (Inl e, h1, t3) \<Rightarrow> (True, h1, t2 @ t3 @ [AsyncLog ''Excecao''])
         | (Inr False, h1, t3) \<Rightarrow>
             (True, h1,
              t2 @ t3 @ [Send (clientSock h1) (''HTTP/1.1 502 Bad Gateway!'' @ CRLF @ CRLF)
                           (e_send_reply env)])
         | (Inr True, h1, t3) \<Rightarrow>
             (case tunnel env hostPort h1 of (b, h2, t4) \<Rightarrow> (b, h2, t2 @ t3 @ t4))))"
proof -
  have nb: "setNonBlocking (clientSock h) (e_getfl_client env) (e_setfl_client env) =
      (True, [Fcntl_GETFL (clientSock h), Fcntl_SETFL (clientSock h)])"
    using assms(1,2) by (simp add: setNonBlocking_def)
  have len: "\<not> ret_len (Inr clientBuffer) \<le> 0"
    using assms(4) by (simp add: ret_len_def)
  have dat: "ret_data (Inr clientBuffer) = clientBuffer"
    by (simp add: ret_data_def)
  have rc: "upto_len (BUFLEN - Suc 0) (e_recv_initial env) = Inr clientBuffer"
    using assms(3) by simp
  show ?thesis
    unfolding assms(9)
    by (simp add: handle_def nb rc len dat assms(5,6,7) assms(8) [symmetric] Let_def
        split: prod.splits sum.splits bool.splits)
qed

lemma connectTarget_no_denial:
  "AsyncLog ''Acesso negado'' \<notin> set (snd (snd (connectTarget env hostPort h)))"
  by (simp add: connectTarget_def setNonBlocking_def Let_def
      split: option.splits sum.splits)

lemma connectTarget_client: "clientSock (fst (snd (connectTarget env hostPort h))) = clientSock h"
  by (simp add: connectTarget_def setNonBlocking_def Let_def
      split: option.splits sum.splits)

lemma relay_no_denial: "AsyncLog ''Acesso negado'' \<notin> set (snd (relay h err count ws))"
  using relay_logs [of "''Acesso negado''" h err count ws] by auto

lemma tunnel_no_denial:
  "AsyncLog ''Acesso negado'' \<notin> set (snd (snd (tunnel env hostPort h)))"
proof -
  define h1 where "h1 = h\<lparr>epollFd := e_epoll_create1 env\<rparr>"
  obtain b t5 where r: "relay h1 (e_errno env) 0 (e_waits env) = (b, t5)"
    by (cases "relay h1 (e_errno env) 0 (e_waits env)") auto
  have "AsyncLog ''Acesso negado'' \<notin> set t5"
    using relay_no_denial [of h1 "e_errno env" 0 "e_waits env"] r by simp
  with r show ?thesis
    by (simp add: tunnel_def Let_def h1_def)
qed

text \<open>The denial is logged exactly when the decision is negative.\<close>

lemma handle_denies_iff:
  assumes "e_getfl_client env \<noteq> - 1" and "e_setfl_client env \<noteq> - 1"
    and "upto_len (BUFLEN - 1) (e_recv_initial env) = Inr clientBuffer"
    and "clientBuffer \<noteq> []"
    and "findHeader clientBuffer ''X-Real-Host'' = Inr hp"
    and "findHeader clientBuffer ''X-Pass'' = Inr passwd"
    and "hostPort = (if hp = [] then DEFAULT_HOST else hp)"
  shows "AsyncLog ''Acesso negado'' \<in> set (snd (snd (handle ip pass env h))) \<longleftrightarrow>
     \<not> allowed ip pass passwd hostPort"
proof -
  obtain split where sp: "findHeader clientBuffer ''X-Split'' = Inr split"
    using findHeader_returns by blast
  define t2 where "t2 = [Fcntl_GETFL (clientSock h), Fcntl_SETFL (clientSock h),
               Recv (clientSock h) (BUFLEN - 1) (Inr clientBuffer)] @
              (if split \<noteq> []
               then [Recv (clientSock h) BUFLEN (upto_len BUFLEN (e_recv_split env))] else [])"
  have nt2: "AsyncLog ''Acesso negado'' \<notin> set t2"
    by (simp add: t2_def)
  note hr = handle_received [OF assms(1,2,3,4,5) sp assms(6,7) t2_def, of ip pass]
  show ?thesis
  proof (cases "allowed ip pass passwd hostPort")
    case False
    with hr show ?thesis by simp
  next
    case True
    obtain res h1 t3 where ct: "connectTarget env hostPort h = (res, h1, t3)"
      by (cases "connectTarget env hostPort h") auto
    have nt3: "AsyncLog ''Acesso negado'' \<notin> set t3"
      using connectTarget_no_denial [of env hostPort h] ct by simp
    obtain b h2 t4 where tu: "tunnel env hostPort h1 = (b, h2, t4)"
      by (cases "tunnel env hostPort h1") auto
    have nt4: "AsyncLog ''Acesso negado'' \<notin> set t4"
      using tunnel_no_denial [of env hostPort h1] tu by simp
    from True hr ct tu nt2 nt3 nt4 show ?thesis
      by (cases res) (auto split: bool.splits)
  qed
qed

text \<open>
  C1. For a request that \<open>handle\<close> has received, with \<open>passwd\<close> the value of \<open>X-Pass\<close>
  and \<open>hostPort\<close> the value of \<open>X-Real-Host\<close> (or the default): the request is allowed
  if and only if the passphrase is non-empty and \<open>passwd\<close> equals it, or the bind
  address is a prefix of \<open>hostPort\<close>; \<open>handle\<close> logs and sends the denial exactly in the
  other case; and a request whose \<open>X-Pass\<close> equals a non-empty passphrase is never denied,
  whatever \<open>X-Real-Host\<close> is.
\<close>

theorem allowed_iff_pass_or_prefix:
  assumes "e_getfl_client env \<noteq> - 1" and "e_setfl_client env \<noteq> - 1"
    and "upto_len (BUFLEN - 1) (e_recv_initial env) = Inr clientBuffer"
    and "clientBuffer \<noteq> []"
    and "findHeader clientBuffer ''X-Real-Host'' = Inr hp"
    and "findHeader clientBuffer ''X-Pass'' = Inr passwd"
    and "hostPort = (if hp = [] then DEFAULT_HOST else hp)"
  shows "(allowed ip pass passwd hostPort \<longleftrightarrow>
            (pass \<noteq> [] \<and> passwd = pass) \<or> prefix ip hostPort) \<and>
         (AsyncLog ''Acesso negado'' \<in> set (snd (snd (handle ip pass env h))) \<longleftrightarrow>
            \<not> ((pass \<noteq> [] \<and> passwd = pass) \<or> prefix ip hostPort)) \<and>
         (pass \<noteq> [] \<and> passwd = pass \<longrightarrow>
            AsyncLog ''Acesso negado'' \<notin> set (snd (snd (handle ip pass env h))))"
proof -
  have A: "allowed ip pass passwd hostPort \<longleftrightarrow> (pass \<noteq> [] \<and> passwd = pass) \<or> prefix ip hostPort"
    by (simp add: allowed_def str_find_zero)
  have D: "AsyncLog ''Acesso negado'' \<in> set (snd (snd (handle ip pass env h))) \<longleftrightarrow>
      \<not> allowed ip pass passwd hostPort"
    by (rule handle_denies_iff [OF assms])
  from A D show ?thesis by blast
qed

theorem allowed_iff_pass_or_prefix_witness:
  "allowed IP ''secret'' ''secret'' ''1.2.3.4:22'' \<and>
   \<not> prefix IP ''1.2.3.4:22'' \<and>
   AsyncLog ''Acesso negado'' \<notin> set (snd (snd (handle IP ''secret''
     (sample_env (''X-Real-Host: 1.2.3.4:22'' @ CRLF @ ''X-Pass: secret'' @ CRLF) [])
     (new_ConnectionHandler 5))))"
proof -
  let ?req = "''X-Real-Host: 1.2.3.4:22'' @ CRLF @ ''X-Pass: secret'' @ CRLF"
  let ?env = "sample_env ?req []"
  have 1: "e_getfl_client ?env \<noteq> - 1" by (simp add: sample_env_def)
  have 2: "e_setfl_client ?env \<noteq> - 1" by (simp add: sample_env_def)
  have 3: "upto_len (BUFLEN - 1) (e_recv_initial ?env) = Inr ?req"
    by (simp add: sample_env_def upto_len_def BUFLEN_def CRLF_def)
  have 4: "?req \<noteq> []" by simp
  have 5: "findHeader ?req ''X-Real-Host'' = Inr ''1.2.3.4:22''" by code_simp
  have 6: "findHeader ?req ''X-Pass'' = Inr ''secret''" by code_simp
  have 7: "''1.2.3.4:22'' = (if ''1.2.3.4:22'' = [] then DEFAULT_HOST else ''1.2.3.4:22'')"
    by simp
  from allowed_iff_pass_or_prefix [OF 1 2 3 4 5 6 7, of IP "''secret''" "new_ConnectionHandler 5"]
  show ?thesis by (simp add: IP_def)
qed

text \<open>A rejected request: the whole run of the worker on it.\<close>

lemma run_task_rejected_trace:
  assumes "e_getfl_client env \<noteq> - 1" and "e_setfl_client env \<noteq> - 1"
    and "upto_len (BUFLEN - 1) (e_recv_initial env) = Inr clientBuffer"
    and "clientBuffer \<noteq> []"
    and "findHeader clientBuffer ''X-Real-Host'' = Inr hp"
    and "findHeader clientBuffer ''X-Split'' = Inr split"
    and "findHeader clientBuffer ''X-Pass'' = Inr passwd"
    and "hostPort = (if hp = [] then DEFAULT_HOST else hp)"
    and "\<not> allowed ip pass passwd hostPort"
    and "sock \<noteq> - 1"
  shows "run_task ip pass env (new_ConnectionHandler sock) =
       (True, (new_ConnectionHandler sock)\<lparr>clientClosed := True\<rparr>,
        [Fcntl_GETFL sock, Fcntl_SETFL sock, Recv sock (BUFLEN - 1) (Inr clientBuffer)] @
        (if split \<noteq> [] then [Recv sock BUFLEN (upto_len BUFLEN (e_recv_split env))] else []) @
        [Send sock
           (if pass \<noteq> [] then ''HTTP/1.1 400 WrongPass!'' @ CRLF @ CRLF
            else ''HTTP/1.1 403 Forbidden!'' @ CRLF @ CRLF)
           (e_send_reply env),
         AsyncLog ''Acesso negado'', Shutdown sock, Close sock])"
proof -
  define h where "h = new_ConnectionHandler sock"
  define t2 where "t2 = [Fcntl_GETFL (clientSock h), Fcntl_SETFL (clientSock h),
               Recv (clientSock h) (BUFLEN - 1) (Inr clientBuffer)] @
              (if split \<noteq> []
               then [Recv (clientSock h) BUFLEN (upto_len BUFLEN (e_recv_split env))] else [])"
  have cs: "clientSock h = sock" by (simp add: h_def new_ConnectionHandler_def)
  from assms(9) have ne: "pass \<noteq> [] \<longrightarrow> passwd \<noteq> pass"
    by (auto simp: allowed_def)
  then have er: "errResp pass passwd =
      (if pass \<noteq> [] then ''HTTP/1.1 400 WrongPass!'' @ CRLF @ CRLF
       else ''HTTP/1.1 403 Forbidden!'' @ CRLF @ CRLF)"
    by (simp add: errResp_def)
  have hd: "handle ip pass env h =
      (True, h, t2 @ [Send (clientSock h) (errResp pass passwd) (e_send_reply env),
                      AsyncLog ''Acesso negado''])"
    using handle_received [OF assms(1,2,3,4,5,6,7,8) t2_def, of ip pass] assms(9)
    by simp
  have ds: "destroy h = (h\<lparr>clientClosed := True\<rparr>, [Shutdown sock, Close sock])"
    using assms(10) by (simp add: destroy_def close_def h_def new_ConnectionHandler_def)
  show ?thesis
    unfolding h_def [symmetric]
    by (simp add: run_task_def hd ds t2_def er cs)
qed

lemma run_task_rejected:
  assumes "e_getfl_client env \<noteq> - 1" and "e_setfl_client env \<noteq> - 1"
    and "upto_len (BUFLEN - 1) (e_recv_initial env) = Inr clientBuffer"
    and "clientBuffer \<noteq> []"
    and "findHeader clientBuffer ''X-Real-Host'' = Inr hp"
    and "findHeader clientBuffer ''X-Pass'' = Inr passwd"
    and "hostPort = (if hp = [] then DEFAULT_HOST else hp)"
    and "\<not> allowed ip pass passwd hostPort"
    and "sock \<noteq> - 1"
  shows "\<exists>split_recv.
     run_task ip pass env (new_ConnectionHandler sock) =
       (True, (new_ConnectionHandler sock)\<lparr>clientClosed := True\<rparr>,
        [Fcntl_GETFL sock, Fcntl_SETFL sock, Recv sock (BUFLEN - 1) (Inr clientBuffer)] @
        split_recv @
        [Send sock
           (if pass \<noteq> [] then ''HTTP/1.1 400 WrongPass!'' @ CRLF @ CRLF
            else ''HTTP/1.1 403 Forbidden!'' @ CRLF @ CRLF)
           (e_send_reply env),
         AsyncLog ''Acesso negado'', Shutdown sock, Close sock]) \<and>
     (split_recv = [] \<or> split_recv = [Recv sock BUFLEN (upto_len BUFLEN (e_recv_split env))])"
proof -
  obtain split where sp: "findHeader clientBuffer ''X-Split'' = Inr split"
    using findHeader_returns by blast
  define split_recv where "split_recv =
    (if split \<noteq> [] then [Recv sock BUFLEN (upto_len BUFLEN (e_recv_split env))] else [])"
  have "split_recv = [] \<or>
      split_recv = [Recv sock BUFLEN (upto_len BUFLEN (e_recv_split env))]"
    by (simp add: split_recv_def)
  with run_task_rejected_trace [OF assms(1,2,3,4,5) sp assms(6,7,8,9), folded split_recv_def]
  show ?thesis by blast
qed

text \<open>
  C5 as stated fails, both ways. With the passphrase \<open>secret\<close> configured, a request
  that supplies no \<open>X-Pass\<close> header at all, and whose \<open>X-Real-Host\<close> is not prefixed
  by the bind address, is answered with the \<open>400 WrongPass!\<close> line and not with the
  \<open>403 Forbidden!\<close> line. With the empty passphrase of the source, a request that
  does supply a credential (\<open>X-Pass: foo\<close>, which matches nothing) is answered with
  the \<open>403 Forbidden!\<close> line and not with the \<open>400 WrongPass!\<close> line.
\<close>

theorem reject_reply_counterexample:
  "str_find (''X-Real-Host: 1.2.3.4:22'' @ CRLF) ''X-Pass: '' = None \<and>
   \<not> prefix IP ''1.2.3.4:22'' \<and>
   snd (snd (run_task IP ''secret'' (sample_env (''X-Real-Host: 1.2.3.4:22'' @ CRLF) [])
     (new_ConnectionHandler 5))) =
     [Fcntl_GETFL 5, Fcntl_SETFL 5,
      Recv 5 (BUFLEN - 1) (Inr (''X-Real-Host: 1.2.3.4:22'' @ CRLF)),
      Send 5 (''HTTP/1.1 400 WrongPass!'' @ CRLF @ CRLF) (Inr 27),
      AsyncLog ''Acesso negado'', Shutdown 5, Close 5] \<and>
   findHeader (''X-Real-Host: 1.2.3.4:22'' @ CRLF @ ''X-Pass: foo'' @ CRLF) ''X-Pass'' =
     Inr ''foo'' \<and>
   snd (snd (run_task IP PASS
     (sample_env (''X-Real-Host: 1.2.3.4:22'' @ CRLF @ ''X-Pass: foo'' @ CRLF) [])
     (new_ConnectionHandler 5))) =
     [Fcntl_GETFL 5, Fcntl_SETFL 5,
      Recv 5 (BUFLEN - 1) (Inr (''X-Real-Host: 1.2.3.4:22'' @ CRLF @ ''X-Pass: foo'' @ CRLF)),
      Send 5 (''HTTP/1.1 403 Forbidden!'' @ CRLF @ CRLF) (Inr 27),
      AsyncLog ''Acesso negado'', Shutdown 5, Close 5]"
proof -
  let ?req = "''X-Real-Host: 1.2.3.4:22'' @ CRLF"
  let ?env = "sample_env ?req []"
  have 1: "e_getfl_client ?env \<noteq> - 1" by (simp add: sample_env_def)
  have 2: "e_setfl_client ?env \<noteq> - 1" by (simp add: sample_env_def)
  have 3: "upto_len (BUFLEN - 1) (e_recv_initial ?env) = Inr ?req"
    by (simp add: sample_env_def upto_len_def BUFLEN_def CRLF_def)
  have 4: "?req \<noteq> []" by simp
  have 5: "findHeader ?req ''X-Real-Host'' = Inr ''1.2.3.4:22''" by code_simp
  have 6: "findHeader ?req ''X-Split'' = Inr []" by code_simp
  have 7: "findHeader ?req ''X-Pass'' = Inr []" by code_simp
  have 8: "''1.2.3.4:22'' = (if ''1.2.3.4:22'' = [] then DEFAULT_HOST else ''1.2.3.4:22'')"
    by simp
  have 9: "\<not> allowed IP ''secret'' [] ''1.2.3.4:22''" by code_simp
  have 10: "(5::int) \<noteq> - 1" by simp
  have A: "str_find ?req ''X-Pass: '' = None" by code_simp
  have B: "\<not> prefix IP ''1.2.3.4:22''" by (simp add: IP_def)
  note E = run_task_rejected_trace [OF 1 2 3 4 5 6 7 8 9 10]
  have C: "snd (snd (run_task IP ''secret'' ?env (new_ConnectionHandler 5))) =
       [Fcntl_GETFL 5, Fcntl_SETFL 5, Recv 5 (BUFLEN - 1) (Inr ?req),
        Send 5 (''HTTP/1.1 400 WrongPass!'' @ CRLF @ CRLF) (Inr 27),
        AsyncLog ''Acesso negado'', Shutdown 5, Close 5]"
    by (subst E) (simp add: sample_env_def)
  let ?req2 = "''X-Real-Host: 1.2.3.4:22'' @ CRLF @ ''X-Pass: foo'' @ CRLF"
  let ?env2 = "sample_env ?req2 []"
  have 11: "e_getfl_client ?env2 \<noteq> - 1" by (simp add: sample_env_def)
  have 12: "e_setfl_client ?env2 \<noteq> - 1" by (simp add: sample_env_def)
  have 13: "upto_len (BUFLEN - 1) (e_recv_initial ?env2) = Inr ?req2"
    by (simp add: sample_env_def upto_len_def BUFLEN_def CRLF_def)
  have 14: "?req2 \<noteq> []" by simp
  have 15: "findHeader ?req2 ''X-Real-Host'' = Inr ''1.2.3.4:22''" by code_simp
  have 16: "findHeader ?req2 ''X-Split'' = Inr []" by code_simp
  have 17: "findHeader ?req2 ''X-Pass'' = Inr ''foo''" by code_simp
  have 19: "\<not> allowed IP PASS ''foo'' ''1.2.3.4:22''" by code_simp
  note E2 = run_task_rejected_trace [OF 11 12 13 14 15 16 17 8 19 10]
  have D: "snd (snd (run_task IP PASS ?env2 (new_ConnectionHandler 5))) =
       [Fcntl_GETFL 5, Fcntl_SETFL 5, Recv 5 (BUFLEN - 1) (Inr ?req2),
        Send 5 (''HTTP/1.1 403 Forbidden!'' @ CRLF @ CRLF) (Inr 27),
        AsyncLog ''Acesso negado'', Shutdown 5, Close 5]"
    by (subst E2) (simp add: sample_env_def PASS_def)
  from A B C 17 D show ?thesis by blast
qed

text \<open>
  C5, amended. For every rejected request, the one reply sent is the
  \<open>400 WrongPass!\<close> line when a non-empty passphrase is configured (the \<open>X-Pass\<close>
  value, empty when the header is absent, then differs from it) and the
  \<open>403 Forbidden!\<close> line when the passphrase is empty; the denial is logged and the
  client socket is shut down and closed. In particular, with an empty passphrase a
  request whose \<open>X-Real-Host\<close> is not prefixed by the bind address gets the \<open>403\<close>
  line.
\<close>

theorem reject_reply:
  assumes "e_getfl_client env \<noteq> - 1" and "e_setfl_client env \<noteq> - 1"
    and "upto_len (BUFLEN - 1) (e_recv_initial env) = Inr clientBuffer"
    and "clientBuffer \<noteq> []"
    and "findHeader clientBuffer ''X-Real-Host'' = Inr hp"
    and "findHeader clientBuffer ''X-Pass'' = Inr passwd"
    and "hostPort = (if hp = [] then DEFAULT_HOST else hp)"
    and "\<not> allowed ip pass passwd hostPort"
    and "sock \<noteq> - 1"
  shows "\<exists>split_recv.
     run_task ip pass env (new_ConnectionHandler sock) =
       (True, (new_ConnectionHandler sock)\<lparr>clientClosed := True\<rparr>,
        [Fcntl_GETFL sock, Fcntl_SETFL sock, Recv sock (BUFLEN - 1) (Inr clientBuffer)] @
        split_recv @
        [Send sock
           (if pass \<noteq> [] then ''HTTP/1.1 400 WrongPass!'' @ CRLF @ CRLF
            else ''HTTP/1.1 403 Forbidden!'' @ CRLF @ CRLF)
           (e_send_reply env),
         AsyncLog ''Acesso negado'', Shutdown sock, Close sock]) \<and>
     (split_recv = [] \<or> split_recv = [Recv sock BUFLEN (upto_len BUFLEN (e_recv_split env))])"
  using assms by (rule run_task_rejected)

theorem reject_reply_witness:
  "\<exists>split_recv.
     run_task IP PASS
       (sample_env (''X-Real-Host: 1.2.3.4:22'' @ CRLF @ ''X-Pass: foo'' @ CRLF) [])
       (new_ConnectionHandler 5) =
       (True, (new_ConnectionHandler 5)\<lparr>clientClosed := True\<rparr>,
        [Fcntl_GETFL 5, Fcntl_SETFL 5,
         Recv 5 (BUFLEN - 1) (Inr (''X-Real-Host: 1.2.3.4:22'' @ CRLF @ ''X-Pass: foo'' @ CRLF))] @
        split_recv @
        [Send 5 (''HTTP/1.1 403 Forbidden!'' @ CRLF @ CRLF) (Inr 27),
         AsyncLog ''Acesso negado'', Shutdown 5, Close 5]) \<and>
     (split_recv = [] \<or> split_recv = [Recv 5 BUFLEN (Inl EAGAIN)])"
proof -
  let ?req = "''X-Real-Host: 1.2.3.4:22'' @ CRLF @ ''X-Pass: foo'' @ CRLF"
  let ?env = "sample_env ?req []"
  have 1: "e_getfl_client ?env \<noteq> - 1" by (simp add: sample_env_def)
  have 2: "e_setfl_client ?env \<noteq> - 1" by (simp add: sample_env_def)
  have 3: "upto_len (BUFLEN - 1) (e_recv_initial ?env) = Inr ?req"
    by (simp add: sample_env_def upto_len_def BUFLEN_def CRLF_def)
  have 4: "?req \<noteq> []" by simp
  have 5: "findHeader ?req ''X-Real-Host'' = Inr ''1.2.3.4:22''" by code_simp
  have 6: "findHeader ?req ''X-Pass'' = Inr ''foo''" by code_simp
  have 7: "''1.2.3.4:22'' = (if ''1.2.3.4:22'' = [] then DEFAULT_HOST else ''1.2.3.4:22'')"
    by simp
  have 8: "\<not> allowed IP PASS ''foo'' ''1.2.3.4:22''" by code_simp
  have 9: "(5::int) \<noteq> - 1" by simp
  have 10: "e_send_reply ?env = Inr 27" by (simp add: sample_env_def)
  have 11: "upto_len BUFLEN (e_recv_split ?env) = Inl EAGAIN"
    by (simp add: sample_env_def upto_len_def)
  have 12: "(PASS \<noteq> []) = False" by (simp add: PASS_def)
  from reject_reply [OF 1 2 3 4 5 6 7 8 9]
  show ?thesis unfolding 10 11 12 by simp
qed




text \<open>
  C10. For an allowed request whose target has a colon followed by text that
  \<open>std::stoi\<close> rejects (no digit to read, or a number outside \<open>int\<close>): the exception
  leaves \<open>connectTarget\<close> before any system call, \<open>handle\<close> catches and logs it, and
  the run ends with the client socket shut down and closed. Nothing is ever sent:
  the whole trace is the two \<open>fcntl\<close> calls, the initial \<open>recv\<close>, the optional
  \<open>X-Split\<close> \<open>recv\<close>, the log entry and the teardown.
\<close>

theorem bad_port_no_reply:
  assumes "e_getfl_client env \<noteq> - 1" and "e_setfl_client env \<noteq> - 1"
    and "upto_len (BUFLEN - 1) (e_recv_initial env) = Inr clientBuffer"
    and "clientBuffer \<noteq> []"
    and "findHeader clientBuffer ''X-Real-Host'' = Inr hp"
    and "findHeader clientBuffer ''X-Pass'' = Inr passwd"
    and "hostPort = (if hp = [] then DEFAULT_HOST else hp)"
    and "allowed ip pass passwd hostPort"
    and "str_find hostPort '':'' = Some colonPos"
    and "stoi (drop (colonPos + 1) hostPort) = Inl e"
    and "sock \<noteq> - 1"
  shows "\<exists>split_recv.
     run_task ip pass env (new_ConnectionHandler sock) =
       (True, (new_ConnectionHandler sock)\<lparr>clientClosed := True\<rparr>,
        [Fcntl_GETFL sock, Fcntl_SETFL sock, Recv sock (BUFLEN - 1) (Inr clientBuffer)] @
        split_recv @ [AsyncLog ''Excecao'', Shutdown sock, Close sock]) \<and>
     (split_recv = [] \<or> split_recv = [Recv sock BUFLEN (upto_len BUFLEN (e_recv_split env))])"
proof -
  obtain split where sp: "findHeader clientBuffer ''X-Split'' = Inr split"
    using findHeader_returns by blast
  define h where "h = new_ConnectionHandler sock"
  define split_recv where "split_recv =
    (if split \<noteq> [] then [Recv (clientSock h) BUFLEN (upto_len BUFLEN (e_recv_split env))] else [])"
  define t2 where "t2 = [Fcntl_GETFL (clientSock h), Fcntl_SETFL (clientSock h),
               Recv (clientSock h) (BUFLEN - 1) (Inr clientBuffer)] @
              (if split \<noteq> []
               then [Recv (clientSock h) BUFLEN (upto_len BUFLEN (e_recv_split env))] else [])"
  have cs: "clientSock h = sock" by (simp add: h_def new_ConnectionHandler_def)
  from str_find_bound [OF assms(9)] have "\<not> length hostPort < colonPos + 1" by simp
  then have sub: "substr hostPort (colonPos + 1) = Inr (drop (colonPos + 1) hostPort)"
    by (simp add: substr_def)
  have ct: "connectTarget env hostPort h = (Inl e, h, [])"
    using assms(9,10) sub by (simp add: connectTarget_def Let_def)
  have hd: "handle ip pass env h = (True, h, t2 @ [AsyncLog ''Excecao''])"
    using handle_received [OF assms(1,2,3,4,5) sp assms(6,7) t2_def, of ip pass] assms(8) ct
    by simp
  have ds: "destroy h = (h\<lparr>clientClosed := True\<rparr>, [Shutdown sock, Close sock])"
    using assms(11) by (simp add: destroy_def close_def h_def new_ConnectionHandler_def)
  have "run_task ip pass env h =
      (True, h\<lparr>clientClosed := True\<rparr>,
       [Fcntl_GETFL sock, Fcntl_SETFL sock, Recv sock (BUFLEN - 1) (Inr clientBuffer)] @
       split_recv @ [AsyncLog ''Excecao'', Shutdown sock, Close sock])"
    by (simp add: run_task_def hd ds t2_def split_recv_def cs)
  moreover have "split_recv = [] \<or>
      split_recv = [Recv sock BUFLEN (upto_len BUFLEN (e_recv_split env))]"
    by (simp add: split_recv_def cs)
  ultimately show ?thesis unfolding h_def by blast
qed

theorem bad_port_no_reply_witness:
  "stoi ''abc'' = Inl std_invalid_argument \<and>
   (\<exists>split_recv.
     run_task IP PASS (sample_env (''X-Real-Host: 0.0.0.0:abc'' @ CRLF) [])
       (new_ConnectionHandler 5) =
       (True, (new_ConnectionHandler 5)\<lparr>clientClosed := True\<rparr>,
        [Fcntl_GETFL 5, Fcntl_SETFL 5,
         Recv 5 (BUFLEN - 1) (Inr (''X-Real-Host: 0.0.0.0:abc'' @ CRLF))] @
        split_recv @ [AsyncLog ''Excecao'', Shutdown 5, Close 5]) \<and>
     (split_recv = [] \<or> split_recv = [Recv 5 BUFLEN (Inl EAGAIN)]))"
proof -
  let ?req = "''X-Real-Host: 0.0.0.0:abc'' @ CRLF"
  let ?env = "sample_env ?req []"
  have 1: "e_getfl_client ?env \<noteq> - 1" by (simp add: sample_env_def)
  have 2: "e_setfl_client ?env \<noteq> - 1" by (simp add: sample_env_def)
  have 3: "upto_len (BUFLEN - 1) (e_recv_initial ?env) = Inr ?req"
    by (simp add: sample_env_def upto_len_def BUFLEN_def CRLF_def)
  have 4: "?req \<noteq> []" by simp
  have 5: "findHeader ?req ''X-Real-Host'' = Inr ''0.0.0.0:abc''" by code_simp
  have 6: "findHeader ?req ''X-Pass'' = Inr []" by code_simp
  have 7: "''0.0.0.0:abc'' = (if ''0.0.0.0:abc'' = [] then DEFAULT_HOST else ''0.0.0.0:abc'')"
    by simp
  have 8: "allowed IP PASS [] ''0.0.0.0:abc''" by code_simp
  have 9: "str_find ''0.0.0.0:abc'' '':'' = Some 7" by code_simp
  have 10: "stoi (drop (7 + 1) ''0.0.0.0:abc'') = Inl std_invalid_argument" by code_simp
  have 11: "(5::int) \<noteq> - 1" by simp
  have 12: "upto_len BUFLEN (e_recv_split ?env) = Inl EAGAIN"
    by (simp add: sample_env_def upto_len_def)
  have 13: "stoi ''abc'' = Inl std_invalid_argument" by code_simp
  from bad_port_no_reply [OF 1 2 3 4 5 6 7 8 9 10 11] 13
  show ?thesis unfolding 12 by simp
qed

text \<open>The tunnel starts by sending the success reply.\<close>

lemma tunnel_starts:
  "\<exists>b h2 rest. tunnel env hostPort h =
     (b, h2, [Send (clientSock h) RESPONSE (e_send_reply env),
              AsyncLog (''CONNECT '' @ hostPort)] @ rest)"
proof -
  obtain b t5 where "relay (h\<lparr>epollFd := e_epoll_create1 env\<rparr>) (e_errno env) 0 (e_waits env) = (b, t5)"
    by (cases "relay (h\<lparr>epollFd := e_epoll_create1 env\<rparr>) (e_errno env) 0 (e_waits env)") auto
  then show ?thesis
    by (auto simp: tunnel_def Let_def)
qed

text \<open>\<open>connectTarget\<close> when every call succeeds and \<open>connect\<close> answers \<open>EINPROGRESS\<close>.\<close>

lemma connectTarget_in_progress:
  assumes "(case str_find hostPort '':'' of None \<Rightarrow> Inr 22
            | Some p \<Rightarrow> stoi (drop (p + 1) hostPort)) = Inr port"
    and "host = (case str_find hostPort '':'' of None \<Rightarrow> hostPort | Some p \<Rightarrow> take p hostPort)"
    and "e_getaddrinfo env = 0" and "e_socket env \<noteq> - 1"
    and "e_getfl_target env \<noteq> - 1" and "e_setfl_target env \<noteq> - 1"
    and "e_connect env = Inl EINPROGRESS"
  shows "connectTarget env hostPort h =
     (Inr True, h\<lparr>targetSock := e_socket env, targetClosed := False\<rparr>,
      [Getaddrinfo host (to_string port), Socket (e_socket env),
       Fcntl_GETFL (e_socket env), Fcntl_SETFL (e_socket env),
       Connect (e_socket env) (Inl EINPROGRESS)])"
proof (cases "str_find hostPort '':''")
  case None
  with assms show ?thesis
    by (simp add: connectTarget_def Let_def setNonBlocking_def)
next
  case (Some p)
  from str_find_bound [OF Some] have "\<not> length hostPort < p + 1" by simp
  then have "substr hostPort (p + 1) = Inr (drop (p + 1) hostPort)"
    by (simp add: substr_def)
  with Some assms show ?thesis
    by (simp add: connectTarget_def Let_def setNonBlocking_def)
qed

text \<open>
  C3. When the non-blocking \<open>connect\<close> of \<open>connectTarget\<close> answers \<open>EINPROGRESS\<close>,
  \<open>connectTarget\<close> returns \<open>true\<close> with the target marked open, and \<open>connect\<close> is the
  last call it makes: nothing waits for the connection to complete. The very next
  call of \<open>handle\<close> is the \<open>send\<close> of the \<open>200\<close> success reply to the client.
\<close>

theorem connect_in_progress_is_success:
  assumes "e_getfl_client env \<noteq> - 1" and "e_setfl_client env \<noteq> - 1"
    and "upto_len (BUFLEN - 1) (e_recv_initial env) = Inr clientBuffer"
    and "clientBuffer \<noteq> []"
    and "findHeader clientBuffer ''X-Real-Host'' = Inr hp"
    and "findHeader clientBuffer ''X-Pass'' = Inr passwd"
    and "hostPort = (if hp = [] then DEFAULT_HOST else hp)"
    and "allowed ip pass passwd hostPort"
    and "(case str_find hostPort '':'' of None \<Rightarrow> Inr 22
          | Some p \<Rightarrow> stoi (drop (p + 1) hostPort)) = Inr port"
    and "host = (case str_find hostPort '':'' of None \<Rightarrow> hostPort | Some p \<Rightarrow> take p hostPort)"
    and "e_getaddrinfo env = 0" and "e_socket env \<noteq> - 1"
    and "e_getfl_target env \<noteq> - 1" and "e_setfl_target env \<noteq> - 1"
    and "e_connect env = Inl EINPROGRESS"
  shows "connectTarget env hostPort h =
           (Inr True, h\<lparr>targetSock := e_socket env, targetClosed := False\<rparr>,
            [Getaddrinfo host (to_string port), Socket (e_socket env),
             Fcntl_GETFL (e_socket env), Fcntl_SETFL (e_socket env),
             Connect (e_socket env) (Inl EINPROGRESS)]) \<and>
         (\<exists>pre rest. snd (snd (handle ip pass env h)) =
            pre @ [Connect (e_socket env) (Inl EINPROGRESS),
                   Send (clientSock h) RESPONSE (e_send_reply env)] @ rest)"
proof -
  obtain split where sp: "findHeader clientBuffer ''X-Split'' = Inr split"
    using findHeader_returns by blast
  define t2 where "t2 = [Fcntl_GETFL (clientSock h), Fcntl_SETFL (clientSock h),
               Recv (clientSock h) (BUFLEN - 1) (Inr clientBuffer)] @
              (if split \<noteq> []
               then [Recv (clientSock h) BUFLEN (upto_len BUFLEN (e_recv_split env))] else [])"
  define h1 where "h1 = h\<lparr>targetSock := e_socket env, targetClosed := False\<rparr>"
  define t3 where "t3 = [Getaddrinfo host (to_string port), Socket (e_socket env),
      Fcntl_GETFL (e_socket env), Fcntl_SETFL (e_socket env)]"
  have ct: "connectTarget env hostPort h =
      (Inr True, h1, t3 @ [Connect (e_socket env) (Inl EINPROGRESS)])"
    unfolding h1_def t3_def
    using connectTarget_in_progress [OF assms(9,10,11,12,13,14,15), of h] by simp
  obtain b h2 rest where tu: "tunnel env hostPort h1 =
      (b, h2, [Send (clientSock h1) RESPONSE (e_send_reply env),
               AsyncLog (''CONNECT '' @ hostPort)] @ rest)"
    using tunnel_starts by blast
  have cs: "clientSock h1 = clientSock h" by (simp add: h1_def)
  have "handle ip pass env h =
      (b, h2, t2 @ (t3 @ [Connect (e_socket env) (Inl EINPROGRESS)]) @
              [Send (clientSock h) RESPONSE (e_send_reply env),
               AsyncLog (''CONNECT '' @ hostPort)] @ rest)"
    using handle_received [OF assms(1,2,3,4,5) sp assms(6,7) t2_def, of ip pass] assms(8)
    by (simp add: ct tu cs)
  then have "snd (snd (handle ip pass env h)) =
      (t2 @ t3) @ [Connect (e_socket env) (Inl EINPROGRESS),
                   Send (clientSock h) RESPONSE (e_send_reply env)] @
      (AsyncLog (''CONNECT '' @ hostPort) # rest)"
    by simp
  then have "\<exists>pre rest. snd (snd (handle ip pass env h)) =
      pre @ [Connect (e_socket env) (Inl EINPROGRESS),
             Send (clientSock h) RESPONSE (e_send_reply env)] @ rest"
    by blast
  with ct show ?thesis unfolding h1_def t3_def by simp
qed

theorem connect_in_progress_is_success_witness:
  "connectTarget (sample_env (''X-Real-Host: 0.0.0.0:22'' @ CRLF) []) ''0.0.0.0:22''
     (new_ConnectionHandler 5) =
     (Inr True, (new_ConnectionHandler 5)\<lparr>targetSock := 7, targetClosed := False\<rparr>,
      [Getaddrinfo ''0.0.0.0'' ''22'', Socket 7, Fcntl_GETFL 7, Fcntl_SETFL 7,
       Connect 7 (Inl EINPROGRESS)]) \<and>
   (\<exists>pre rest. snd (snd (handle IP PASS (sample_env (''X-Real-Host: 0.0.0.0:22'' @ CRLF) [])
       (new_ConnectionHandler 5))) =
      pre @ [Connect 7 (Inl EINPROGRESS), Send 5 RESPONSE (Inr 27)] @ rest)"
proof -
  let ?req = "''X-Real-Host: 0.0.0.0:22'' @ CRLF"
  let ?env = "sample_env ?req []"
  have 1: "e_getfl_client ?env \<noteq> - 1" by (simp add: sample_env_def)
  have 2: "e_setfl_client ?env \<noteq> - 1" by (simp add: sample_env_def)
  have 3: "upto_len (BUFLEN - 1) (e_recv_initial ?env) = Inr ?req"
    by (simp add: sample_env_def upto_len_def BUFLEN_def CRLF_def)
  have 4: "?req \<noteq> []" by simp
  have 5: "findHeader ?req ''X-Real-Host'' = Inr ''0.0.0.0:22''" by code_simp
  have 6: "findHeader ?req ''X-Pass'' = Inr []" by code_simp
  have 7: "''0.0.0.0:22'' = (if ''0.0.0.0:22'' = [] then DEFAULT_HOST else ''0.0.0.0:22'')"
    by simp
  have 8: "allowed IP PASS [] ''0.0.0.0:22''" by code_simp
  have 9: "(case str_find ''0.0.0.0:22'' '':'' of None \<Rightarrow> Inr 22
          | Some p \<Rightarrow> stoi (drop (p + 1) ''0.0.0.0:22'')) = Inr 22" by code_simp
  have 10: "''0.0.0.0'' = (case str_find ''0.0.0.0:22'' '':'' of None \<Rightarrow> ''0.0.0.0:22''
          | Some p \<Rightarrow> take p ''0.0.0.0:22'')" by code_simp
  have 11: "e_getaddrinfo ?env = 0" by (simp add: sample_env_def)
  have 12: "e_socket ?env \<noteq> - 1" by (simp add: sample_env_def)
  have 13: "e_getfl_target ?env \<noteq> - 1" by (simp add: sample_env_def)
  have 14: "e_setfl_target ?env \<noteq> - 1" by (simp add: sample_env_def)
  have 15: "e_connect ?env = Inl EINPROGRESS" by (simp add: sample_env_def)
  have 16: "e_socket ?env = 7" by (simp add: sample_env_def)
  have 17: "e_send_reply ?env = Inr 27" by (simp add: sample_env_def)
  have 18: "to_string 22 = ''22''" by code_simp
  have 19: "clientSock (new_ConnectionHandler 5) = 5" by (simp add: new_ConnectionHandler_def)
  from connect_in_progress_is_success [OF 1 2 3 4 5 6 7 8 9 10 11 12 13 14 15,
      of "new_ConnectionHandler 5"]
  show ?thesis unfolding 16 17 18 19 .
qed

section \<open>The idle timeout\<close>














section \<open>Teardown of a SOCKS5 session\<close>


lemma snd_after: "snd (after t r) = t @ snd r"
  by (simp add: after_def)













section \<open>The SOCKS5 negotiation\<close>

lemma scan_methods_iff:
  "i \<le> nmethods \<Longrightarrow>
     scan_methods buf nmethods i \<longleftrightarrow> (\<exists>j. unat i \<le> j \<and> j < unat nmethods \<and> buf j = 0)"
proof (induction buf nmethods i rule: scan_methods.induct)
  case (1 buf nmethods i)
  show ?case
  proof (cases "i < nmethods")
    case False
    with "1.prems" have "i = nmethods" by simp
    then show ?thesis by (simp add: scan_methods.simps [of buf nmethods nmethods])
  next
    case True
    then have lt: "unat i < unat nmethods" by (simp add: word_less_nat_alt)
    from True have suc: "unat (i + 1) = Suc (unat i)" by unat_arith
    from True have le: "i + 1 \<le> nmethods" by (rule inc_le)
    show ?thesis
    proof (cases "buf (unat i) = 0")
      case z: True
      with True lt show ?thesis
        by (subst scan_methods.simps) auto
    next
      case nz: False
      from "1.IH" [OF True nz le] have
        "scan_methods buf nmethods (i + 1) \<longleftrightarrow>
           (\<exists>j. Suc (unat i) \<le> j \<and> j < unat nmethods \<and> buf j = 0)"
        by (simp add: suc)
      moreover have "(\<exists>j. Suc (unat i) \<le> j \<and> j < unat nmethods \<and> buf j = 0) \<longleftrightarrow>
          (\<exists>j. unat i \<le> j \<and> j < unat nmethods \<and> buf j = 0)"
        using nz by (metis Suc_leD Suc_leI le_neq_implies_less)
      ultimately show ?thesis
        using True nz by (subst scan_methods.simps) simp
    qed
  qed
qed

lemma scan_methods_stored:
  assumes "length methods = unat nmethods"
  shows "scan_methods (store methods buf) nmethods 0 \<longleftrightarrow> 0 \<in> set methods"
proof -
  have "scan_methods (store methods buf) nmethods 0 \<longleftrightarrow>
      (\<exists>j. j < unat nmethods \<and> store methods buf j = 0)"
    using scan_methods_iff [of 0 nmethods "store methods buf"] by simp
  also have "\<dots> \<longleftrightarrow> (\<exists>j < length methods. methods ! j = 0)"
    using assms by (auto simp: store_def)
  also have "\<dots> \<longleftrightarrow> 0 \<in> set methods"
    by (auto simp: in_set_conv_nth)
  finally show ?thesis .
qed

text \<open>
  C6. When the greeting is version 5 and its method list does not contain \<open>0x00\<close>,
  the session writes exactly the two bytes \<open>0x05, 0xFF\<close> and then, whatever the
  outcome of that write, runs \<open>handle_error\<close>: the timer is cancelled and both
  sockets are shut down and closed. The whole session is the two reads of the
  greeting, that write and the teardown; no further read is started.
\<close>

theorem no_acceptable_method:
  assumes "s_head env = (success, [0x05, nmethods])"
    and "s_methods env = (success, methods)"
    and "length methods = unat nmethods"
    and "0x00 \<notin> set methods"
  shows "snd (start env s) =
           [Expires_after 30, Timer_async_wait, Async_read Client 2,
            Async_read Client (unat nmethods), Async_write Client [0x05, 0xFF],
            Timer_cancel, Sock_shutdown Client, Sock_shutdown Remote,
            Sock_close Client, Sock_close Remote] \<and>
         \<not> client_socket (fst (start env s)) \<and> \<not> remote_socket (fst (start env s))"
proof -
  have b0: "store [0x05, nmethods] (buffer s) 0 = 0x05"
    and b1: "store [0x05, nmethods] (buffer s) (Suc 0) = nmethods"
    by (simp_all add: store_def)
  have sc: "\<not> scan_methods (store methods (store [0x05, nmethods] (buffer s))) nmethods 0"
    using scan_methods_stored [OF assms(3), of "store [0x05, nmethods] (buffer s)"] assms(4)
    by simp
  have "read_handshake env s =
      after [Async_read Client 2]
        (after [Async_read Client (unat nmethods)]
           (after [Async_write Client [0x05, 0xFF]]
              (handle_error (s_method_reply env)
                 (s\<lparr>buffer := store methods (store [0x05, nmethods] (buffer s))\<rparr>))))"
    unfolding read_handshake_def assms(1,2)
    by (simp add: Let_def b0 b1 sc)
  then show ?thesis
    by (simp add: start_def after_def handle_error_def set_timeout_def cancel_timeout_def)
qed

theorem no_acceptable_method_witness:
  "snd (start (sample_s5env [0x02] [10, 0, 0, 1] [0x01, 0xBB] []) (new_Session (\<lambda>i. 0))) =
     [Expires_after 30, Timer_async_wait, Async_read Client 2, Async_read Client 1,
      Async_write Client [0x05, 0xFF], Timer_cancel, Sock_shutdown Client,
      Sock_shutdown Remote, Sock_close Client, Sock_close Remote]"
proof -
  let ?env = "sample_s5env [0x02] [10, 0, 0, 1] [0x01, 0xBB] []"
  have 1: "s_head ?env = (success, [0x05, 1])" by (simp add: sample_s5env_def)
  have 2: "s_methods ?env = (success, [0x02])" by (simp add: sample_s5env_def)
  have 3: "length [0x02 :: byte] = unat (1 :: byte)" by simp
  have 4: "(0x00 :: byte) \<notin> set [0x02]" by simp
  from no_acceptable_method [OF 1 2 3 4, of "new_Session (\<lambda>i. 0)"]
  show ?thesis by simp
qed

section \<open>The target of a SOCKS5 session\<close>

lemma to_string_22: "to_string 22 = ''22''"
  by code_simp

lemma service_22: "to_string (uint (22 :: 16 word)) = ''22''"
  by (simp add: to_string_22)
















section \<open>Byte fidelity of the buffered fallback\<close>







text \<open>
  The same in general: whenever the fallback \<open>send\<close> accepts fewer bytes than \<open>recv\<close>
  took, \<open>pump\<close> does not leave the loop and the target has received a proper prefix
  of what was taken from the source.
\<close>

lemma pump_partial_send:
  assumes "ev_splice ev = Inl EAGAIN" and "ev_recv ev = Inr d" and "ev_send ev = Inr n"
    and "0 < n" and "n < length d" and "length d \<le> BUFLEN" and "src \<noteq> dst"
  shows "fst (pump src dst ev err) = False \<and>
         taken_from src (snd (snd (pump src dst ev err))) = d \<and>
         given_to dst (snd (snd (pump src dst ev err))) = take n d \<and>
         take n d \<noteq> d"
proof -
  from assms(5) have "length (take n d) \<noteq> length d" by simp
  then have "take n d \<noteq> d" by metis
  moreover from assms(5) have "d \<noteq> []" by auto
  ultimately show ?thesis using assms
    by (simp add: pump_def Let_def upto_len_def ret_len_def ret_data_def ret_count_def
        set_errno_def)
qed

end
